theory Spec2Isabelle
  imports Complex_Main "HOL-Library.Word" "HOL-Library.Log_Nat"
begin

section \<open>Values shared by the two routers\<close>

text \<open>
  A JavaScript \<^verbatim>\<open>Date\<close> is its number of milliseconds since the epoch. A MongoDB
  \<^verbatim>\<open>ObjectId\<close> is twelve bytes, here a 96-bit word; \<^verbatim>\<open>toString()\<close> prints it as 24
  lower-case hexadecimal digits and \<^verbatim>\<open>new ObjectId(str)\<close> reads 24 hexadecimal digits
  of either case and throws on any other string. The driver is the one from release 6
  on, in this and in what \<^verbatim>\<open>findOneAndUpdate\<close> answers: the document itself, or
  \<^verbatim>\<open>null\<close> when none matches.
\<close>

type_synonym Date = int

type_synonym ObjectId = "96 word"

datatype exn = DbNotInitialized | BSONError | DuplicateKey | TypeError | Overflow

definition hexDigit :: "nat \<Rightarrow> char" where
  "hexDigit d = char_of (if d < 10 then 48 + d else 87 + d)"

definition hexValue :: "char \<Rightarrow> nat option" where
  "hexValue c =
     (let n = of_char c :: nat in
      if 48 \<le> n \<and> n \<le> 57 then Some (n - 48)
      else if 97 \<le> n \<and> n \<le> 102 then Some (n - 87)
      else if 65 \<le> n \<and> n \<le> 70 then Some (n - 55)
      else None)"

fun toHex :: "nat \<Rightarrow> nat \<Rightarrow> string" where
  "toHex 0 n = []"
| "toHex (Suc k) n = toHex k (n div 16) @ [hexDigit (n mod 16)]"

fun fromHex :: "nat \<Rightarrow> string \<Rightarrow> nat option" where
  "fromHex acc [] = Some acc"
| "fromHex acc (c # cs) =
     (case hexValue c of None \<Rightarrow> None | Some v \<Rightarrow> fromHex (16 * acc + v) cs)"

definition toHexString :: "ObjectId \<Rightarrow> string" where
  "toHexString w = toHex 24 (unat w)"

definition ObjectId_new :: "string \<Rightarrow> exn + ObjectId" where
  "ObjectId_new s =
     (if length s = 24
      then (case fromHex 0 s of None \<Rightarrow> Inl BSONError | Some n \<Rightarrow> Inr (word_of_nat n))
      else Inl BSONError)"

text \<open>Decimal printing of a number inside a template string.\<close>

fun decimal :: "nat \<Rightarrow> string" where
  "decimal n =
     (if n < 10 then [char_of (48 + n)] else decimal (n div 10) @ [char_of (48 + n mod 10)])"

declare decimal.simps [simp del]

definition show_int :: "int \<Rightarrow> string" where
  "show_int i = (if i < 0 then CHR ''-'' # decimal (nat (- i)) else decimal (nat i))"

subsection \<open>Stored numbers\<close>

text \<open>
  A number in a document is a 32-bit integer, a 64-bit integer or a double, the last
  given by the rational it denotes (finite, in the normal range). The driver writes a
  JavaScript number as a 32-bit integer when it is an integer of that range and as a
  double otherwise. \<^verbatim>\<open>$inc\<close> by 1 adds in the type of the stored value: 32 bits
  move to 64 when they overflow, 64 bits fail when they overflow, and a double takes the
  double nearest to the sum, ties going to the even significand (\<open>round_double\<close>, with
  53 significant bits).
\<close>

datatype number = Int32 int | Int64 int | Double rat

definition pow2 :: "int \<Rightarrow> rat" where
  "pow2 k = (if 0 \<le> k then 2 ^ nat k else 1 / 2 ^ nat (- k))"

definition round_half_even :: "rat \<Rightarrow> int" where
  "round_half_even q =
     (let f = \<lfloor>q\<rfloor>; r = q - of_int f in
      if r < 1 / 2 then f else if 1 / 2 < r then f + 1 else if even f then f else f + 1)"

definition round_double :: "rat \<Rightarrow> rat" where
  "round_double q =
     (if q = 0 then 0
      else let a = \<bar>q\<bar>;
               c = bitlen (fst (quotient_of a)) - bitlen (snd (quotient_of a));
               e = (if pow2 c \<le> a then c else c - 1);
               s = e - 52
           in sgn q * of_int (round_half_even (a / pow2 s)) * pow2 s)"

definition inc_number :: "number \<Rightarrow> exn + number" where
  "inc_number v =
     (case v of
        Int32 n \<Rightarrow> Inr (if n + 1 < 2 ^ 31 then Int32 (n + 1) else Int64 (n + 1))
      | Int64 n \<Rightarrow> if n + 1 < 2 ^ 63 then Inr (Int64 (n + 1)) else Inl Overflow
      | Double x \<Rightarrow> Inr (Double (round_double (x + 1))))"

section \<open>Documents, database handle and responses\<close>

record user =
  u_id :: ObjectId
  username :: string
  email :: string
  password :: string
  joinDate :: Date
  lastLogin :: "Date option"
  loginAttempts :: int
  lastFailedLogin :: "Date option"
  isActive :: bool
  role :: string
  profile :: "(string \<times> string) list"

record image =
  url :: string
  public_id :: string

record contact =
  app :: string
  id' :: string

record book =
  b_id :: ObjectId
  title :: string
  author :: string
  genre :: string
  condition :: string
  description :: string
  image' :: "image option"
  contact :: contact
  userId :: ObjectId
  createdAt :: Date
  likes :: number

record db =
  users :: "user list"
  books :: "book list"

text \<open>
  The module state of \<^verbatim>\<open>connect.js\<close> (the variable \<^verbatim>\<open>database\<close>, unset until
  \<^verbatim>\<open>connectToServer\<close> has run) together with what the handlers write with
  \<^verbatim>\<open>console.error\<close>.
\<close>

record server =
  database :: "db option"
  console :: "string list"

definition getDb :: "server \<Rightarrow> exn + db" where
  "getDb s = (case database s of None \<Rightarrow> Inl DbNotInitialized | Some d \<Rightarrow> Inr d)"

text \<open>
  The two values at play in the test \<^verbatim>\<open>result.value === null\<close>: what the expression
  \<^verbatim>\<open>result.value\<close> is when \<^verbatim>\<open>result\<close> is a listing (a listing has no field of that
  name), and what it is compared with.
\<close>

datatype js = Undefined | Null

datatype payload =
    Failure string string
  | ValidationFailure "string list"
  | Registered ObjectId string string Date string
  | LoggedIn ObjectId string string string "(string \<times> string) list" string
  | Profile ObjectId string string string "(string \<times> string) list" Date
  | Message string
  | BookData js string
  | BooksData "book list" string

datatype response = Response (status: nat) (body: payload)

fun code :: "payload \<Rightarrow> string option" where
  "code (Failure msg c) = Some c"
| "code (ValidationFailure errs) = Some ''VALIDATION_ERROR''"
| "code _ = None"

definition server_error :: response where
  "server_error = Response 500 (Failure ''Internal server error'' ''SERVER_ERROR'')"

text \<open>
  The configuration read from the process environment at start-up and the library
  functions the handlers call (bcrypt, jsonwebtoken, validator.js, the Cloudinary
  uploader). They are parameters of the model. \<open>jwt_sign\<close> and \<open>jwt_verify\<close> take the
  instant at which the library reads the clock; \<open>jwt_verify\<close> gives \<open>None\<close> where the
  library throws and the \<^verbatim>\<open>id\<close> of the decoded payload otherwise;
  \<open>cloudinary_destroy\<close> is \<open>False\<close> where the promise rejects.
\<close>

record env =
  JWT_SECRET :: string
  JWT_EXPIRES_IN :: string
  SALT_ROUNDS :: nat
  bcrypt_hash :: "string \<Rightarrow> nat \<Rightarrow> string"
  bcrypt_compare :: "string \<Rightarrow> string \<Rightarrow> bool"
  jwt_sign :: "string \<Rightarrow> string \<Rightarrow> string \<Rightarrow> Date \<Rightarrow> string"
  jwt_verify :: "string \<Rightarrow> string \<Rightarrow> Date \<Rightarrow> string option"
  isEmail :: "string \<Rightarrow> bool"
  normalizeEmail :: "string \<Rightarrow> string"
  cloudinary_destroy :: "string \<Rightarrow> bool"

subsection \<open>Collection operations\<close>

text \<open>
  A collection is the list of its documents in natural order. Each operation touches
  the first document that matches, as the driver's single-document operations do.
  \<open>insertOne\<close> fails on an \<^verbatim>\<open>_id\<close> already present (the mandatory unique index).
  \<open>findOneAndUpdate\<close> gives the document after the update, or \<open>None\<close> for
  \<^verbatim>\<open>null\<close>, and the collection it leaves; \<open>findOneAndApply\<close> is the same operation
  for an update operator that can fail on the matched document.
\<close>

fun findOne :: "('a \<Rightarrow> bool) \<Rightarrow> 'a list \<Rightarrow> 'a option" where
  "findOne P [] = None"
| "findOne P (x # xs) = (if P x then Some x else findOne P xs)"

fun findOneAndUpdate :: "('a \<Rightarrow> bool) \<Rightarrow> ('a \<Rightarrow> 'a) \<Rightarrow> 'a list \<Rightarrow> 'a option \<times> 'a list" where
  "findOneAndUpdate P f [] = (None, [])"
| "findOneAndUpdate P f (x # xs) =
     (if P x then (Some (f x), f x # xs)
      else (case findOneAndUpdate P f xs of (r, ys) \<Rightarrow> (r, x # ys)))"

fun findOneAndApply ::
  "('a \<Rightarrow> bool) \<Rightarrow> ('a \<Rightarrow> exn + 'a) \<Rightarrow> 'a list \<Rightarrow> exn + 'a option \<times> 'a list" where
  "findOneAndApply P f [] = Inr (None, [])"
| "findOneAndApply P f (x # xs) =
     (if P x then (case f x of Inl err \<Rightarrow> Inl err | Inr y \<Rightarrow> Inr (Some y, y # xs))
      else (case findOneAndApply P f xs of
              Inl err \<Rightarrow> Inl err
            | Inr (r, ys) \<Rightarrow> Inr (r, x # ys)))"

definition updateOne :: "('a \<Rightarrow> bool) \<Rightarrow> ('a \<Rightarrow> 'a) \<Rightarrow> 'a list \<Rightarrow> 'a list" where
  "updateOne P f xs = snd (findOneAndUpdate P f xs)"

fun deleteOne :: "('a \<Rightarrow> bool) \<Rightarrow> 'a list \<Rightarrow> nat \<times> 'a list" where
  "deleteOne P [] = (0, [])"
| "deleteOne P (x # xs) =
     (if P x then (1, xs) else (case deleteOne P xs of (n, ys) \<Rightarrow> (n, x # ys)))"

definition insertOne :: "('a \<Rightarrow> ObjectId) \<Rightarrow> 'a \<Rightarrow> 'a list \<Rightarrow> exn + 'a list" where
  "insertOne key doc xs =
     (if key doc \<in> set (map key xs) then Inl DuplicateKey else Inr (xs @ [doc]))"

section \<open>Accounts: \<^verbatim>\<open>userRoutes.js\<close>\<close>

text \<open>
  The handlers are modelled for a request that the rate limiter in front of the router
  has let through, and for a database that answers: the only failures of the store in the
  model are an unset handle and a duplicate \<^verbatim>\<open>_id\<close>. Request fields have the types
  the handlers expect (strings).
\<close>

definition MAX_LOGIN_ATTEMPTS :: int where
  "MAX_LOGIN_ATTEMPTS = 5"

definition LOGIN_WINDOW_MINUTES :: rat where
  "LOGIN_WINDOW_MINUTES = 15"

definition generateToken :: "env \<Rightarrow> Date \<Rightarrow> string \<Rightarrow> string" where
  "generateToken e now uid = jwt_sign e uid (JWT_SECRET e) (JWT_EXPIRES_IN e) now"

text \<open>\<^verbatim>\<open>mongo-sanitize\<close> strips keys starting with \<^verbatim>\<open>$\<close> from objects and returns a string as it is.\<close>

definition sanitizeInput :: "string \<Rightarrow> string" where
  "sanitizeInput input = input"

subsection \<open>Login\<close>

text \<open>
  The body a login request has once \<^verbatim>\<open>validate(loginSchema)\<close> has let it through.
  \<open>tm k\<close> is what the clock shows where the handler evaluates its \<open>k\<close>-th
  \<^verbatim>\<open>new Date()\<close> (in source order: the lock-out check, its fall-back operand, the failure
  stamp, the login stamp); \<open>tm 4\<close> is the clock as \<^verbatim>\<open>jwt.sign\<close> reads it.
  The quotient of milliseconds by 60000 is a double in the source and a rational here;
  the comparison with 15 and the rounding up come out the same on every integer number
  of milliseconds a \<^verbatim>\<open>Date\<close> difference can be.
\<close>

record login_body =
  lb_email :: string
  lb_password :: string

definition minutesSince :: "Date \<Rightarrow> Date \<Rightarrow> rat" where
  "minutesSince now prev = of_int (now - prev) / (1000 * 60)"

definition locked_message :: "rat \<Rightarrow> string" where
  "locked_message minutesSinceLastAttempt =
     ''Account locked. Try again in '' @
     show_int \<lceil>LOGIN_WINDOW_MINUTES - minutesSinceLastAttempt\<rceil> @ '' minutes.''"

definition invalid_credentials :: response where
  "invalid_credentials = Response 401 (Failure ''Invalid credentials'' ''INVALID_CREDENTIALS'')"

definition login :: "env \<Rightarrow> server \<Rightarrow> (nat \<Rightarrow> Date) \<Rightarrow> login_body \<Rightarrow> response \<times> server" where
  "login e s tm req =
     (case getDb s of
        Inl err \<Rightarrow> (server_error, s)
      | Inr d \<Rightarrow>
          let sanitizedEmail = sanitizeInput (lb_email req) in
          (case findOne (\<lambda>u. email u = sanitizedEmail) (users d) of
             None \<Rightarrow> (invalid_credentials, s)
           | Some usr \<Rightarrow>
               let minutesSinceLastAttempt =
                     minutesSince (tm 0)
                       (case lastFailedLogin usr of Some t \<Rightarrow> t | None \<Rightarrow> tm 1) in
               if MAX_LOGIN_ATTEMPTS \<le> loginAttempts usr
                  \<and> minutesSinceLastAttempt < LOGIN_WINDOW_MINUTES
               then (Response 429
                       (Failure (locked_message minutesSinceLastAttempt) ''ACCOUNT_LOCKED''), s)
               else if \<not> bcrypt_compare e (sanitizeInput (lb_password req)) (password usr)
               then (invalid_credentials,
                     s\<lparr>database := Some (d\<lparr>users :=
                         updateOne (\<lambda>u. u_id u = u_id usr)
                           (\<lambda>u. u\<lparr>loginAttempts := loginAttempts u + 1,
                                  lastFailedLogin := Some (tm 2)\<rparr>)
                           (users d)\<rparr>)\<rparr>)
               else (Response 200
                       (LoggedIn (u_id usr) (username usr) (email usr) (role usr) (profile usr)
                          (generateToken e (tm 4) (toHexString (u_id usr)))),
                     s\<lparr>database := Some (d\<lparr>users :=
                         updateOne (\<lambda>u. u_id u = u_id usr)
                           (\<lambda>u. u\<lparr>loginAttempts := 0, lastLogin := Some (tm 3)\<rparr>)
                           (users d)\<rparr>)\<rparr>)))"

subsection \<open>Registration\<close>

text \<open>
  What \<^verbatim>\<open>express-validator\<close> does with \<^verbatim>\<open>registerSchema\<close>. A missing field is
  validated as the empty string. \<^verbatim>\<open>\s\<close> is JavaScript's white space, taken among the
  characters below 256; \<^verbatim>\<open>.\<close> in a look-ahead stops at a line terminator. The result
  lists the field of every validator that failed (here in schema order; the order in
  which the library reports them plays no role below) and the body as the sanitizers
  leave it for the handler.
\<close>

definition isSpace :: "char \<Rightarrow> bool" where
  "isSpace c = (let n = of_char c :: nat in (9 \<le> n \<and> n \<le> 13) \<or> n = 32 \<or> n = 160)"

definition isLineTerminator :: "char \<Rightarrow> bool" where
  "isLineTerminator c = (let n = of_char c :: nat in n = 10 \<or> n = 13)"

definition isLower :: "char \<Rightarrow> bool" where
  "isLower c = (let n = of_char c :: nat in 97 \<le> n \<and> n \<le> 122)"

definition isUpper :: "char \<Rightarrow> bool" where
  "isUpper c = (let n = of_char c :: nat in 65 \<le> n \<and> n \<le> 90)"

definition isDigit :: "char \<Rightarrow> bool" where
  "isDigit c = (let n = of_char c :: nat in 48 \<le> n \<and> n \<le> 57)"

definition isSpecial :: "char \<Rightarrow> bool" where
  "isSpecial c = (c \<in> set ''@$!%*?&'')"

definition trim :: "string \<Rightarrow> string" where
  "trim s = rev (dropWhile isSpace (rev (dropWhile isSpace s)))"

definition toString :: "string option \<Rightarrow> string" where
  "toString v = (case v of None \<Rightarrow> [] | Some s \<Rightarrow> s)"

definition isLength :: "nat \<Rightarrow> nat option \<Rightarrow> string \<Rightarrow> bool" where
  "isLength lo hi s =
     (lo \<le> length s \<and> (case hi of None \<Rightarrow> True | Some m \<Rightarrow> length s \<le> m))"

text \<open>\<^verbatim>\<open>/^[a-zA-Z0-9_]+$/\<close>\<close>

definition matches_username :: "string \<Rightarrow> bool" where
  "matches_username s =
     (s \<noteq> [] \<and> list_all (\<lambda>c. isLower c \<or> isUpper c \<or> isDigit c \<or> c = CHR ''_'') s)"

text \<open>\<^verbatim>\<open>(?=.*[x])\<close> at the start of the string, for a character class \<open>P\<close>.\<close>

definition lookahead :: "(char \<Rightarrow> bool) \<Rightarrow> string \<Rightarrow> bool" where
  "lookahead P s =
     (case dropWhile (\<lambda>c. \<not> P c \<and> \<not> isLineTerminator c) s of
        [] \<Rightarrow> False
      | c # rest \<Rightarrow> P c)"

text \<open>\<^verbatim>\<open>/^(?=.*[a-z])(?=.*[A-Z])(?=.*\d)[A-Za-z\d@$!%*?&]{8,}$/\<close>\<close>

definition matches_password :: "string \<Rightarrow> bool" where
  "matches_password s =
     (lookahead isLower s \<and> lookahead isUpper s \<and> lookahead isDigit s
      \<and> 8 \<le> length s
      \<and> list_all (\<lambda>c. isUpper c \<or> isLower c \<or> isDigit c \<or> isSpecial c) s)"

record raw_register =
  r_username :: "string option"
  r_email :: "string option"
  r_password :: "string option"

record register_body =
  rb_username :: string
  rb_email :: string
  rb_password :: string

definition registerSchema :: "env \<Rightarrow> raw_register \<Rightarrow> string list \<times> register_body" where
  "registerSchema e raw =
     (let u = trim (toString (r_username raw));
          m = trim (toString (r_email raw));
          p = toString (r_password raw)
      in ((if isLength 3 (Some 30) u then [] else [''username'']) @
          (if matches_username u then [] else [''username'']) @
          (if isEmail e m then [] else [''email'']) @
          (if isLength 8 None p then [] else [''password'']) @
          (if matches_password p then [] else [''password'']),
          \<lparr>rb_username = u, rb_email = normalizeEmail e m, rb_password = p\<rparr>))"

text \<open>
  The handler of \<^verbatim>\<open>POST /\<close>. \<open>newId\<close> is the \<^verbatim>\<open>_id\<close> the driver generates for the
  inserted document; \<open>tm 0\<close> is the clock at \<^verbatim>\<open>joinDate: new Date()\<close> and \<open>tm 1\<close> the
  clock as \<^verbatim>\<open>jwt.sign\<close> reads it.
\<close>

definition user_exists :: response where
  "user_exists = Response 409 (Failure ''Username or email already exists'' ''USER_EXISTS'')"

definition register ::
  "env \<Rightarrow> server \<Rightarrow> (nat \<Rightarrow> Date) \<Rightarrow> ObjectId \<Rightarrow> register_body \<Rightarrow> response \<times> server" where
  "register e s tm newId req =
     (case getDb s of
        Inl err \<Rightarrow> (server_error, s)
      | Inr d \<Rightarrow>
          let sanitized_username = sanitizeInput (rb_username req);
              sanitized_email = sanitizeInput (rb_email req) in
          (case findOne (\<lambda>u. username u = sanitized_username \<or> email u = sanitized_email)
                  (users d) of
             Some existing \<Rightarrow> (user_exists, s)
           | None \<Rightarrow>
               let hashedPassword = bcrypt_hash e (sanitizeInput (rb_password req)) (SALT_ROUNDS e);
                   usr = \<lparr>u_id = newId, username = sanitized_username, email = sanitized_email,
                          password = hashedPassword, joinDate = tm 0, lastLogin = None,
                          loginAttempts = 0, lastFailedLogin = None, isActive = True,
                          role = ''user'', profile = []\<rparr> in
               (case insertOne u_id usr (users d) of
                  Inl err \<Rightarrow> (server_error, s)
                | Inr us \<Rightarrow>
                    (Response 201
                       (Registered newId (username usr) (email usr) (joinDate usr)
                          (generateToken e (tm 1) (toHexString newId))),
                     s\<lparr>database := Some (d\<lparr>users := us\<rparr>)\<rparr>))))"

text \<open>The route: \<^verbatim>\<open>validate(registerSchema)\<close>, then the handler.\<close>

definition post_users ::
  "env \<Rightarrow> server \<Rightarrow> (nat \<Rightarrow> Date) \<Rightarrow> ObjectId \<Rightarrow> raw_register \<Rightarrow> response \<times> server" where
  "post_users e s tm newId raw =
     (case registerSchema e raw of
        (errors, req) \<Rightarrow>
          if errors \<noteq> [] then (Response 400 (ValidationFailure errors), s)
          else register e s tm newId req)"

subsection \<open>Token verification, \<^verbatim>\<open>GET /me\<close> and \<^verbatim>\<open>DELETE /me\<close>\<close>

text \<open>\<^verbatim>\<open>str.split(sep)\<close> for a one-character separator: the pieces between separators.\<close>

fun split :: "char \<Rightarrow> string \<Rightarrow> string list" where
  "split sep [] = [[]]"
| "split sep (c # cs) =
     (if c = sep then [] # split sep cs
      else (case split sep cs of [] \<Rightarrow> [[c]] | p # ps \<Rightarrow> (c # p) # ps))"

text \<open>\<^verbatim>\<open>req.headers.authorization?.split(' ')[1]\<close>\<close>

definition bearer :: "string option \<Rightarrow> string option" where
  "bearer authorization =
     (case authorization of
        None \<Rightarrow> None
      | Some a \<Rightarrow> (case split (CHR '' '') a of x # t # rest \<Rightarrow> Some t | _ \<Rightarrow> None))"

definition not_authorized :: response where
  "not_authorized = Response 401 (Failure ''Not authorized'' ''NOT_AUTHORIZED'')"

text \<open>
  The middleware either answers 401 (\<open>Inl\<close>) or hands \<^verbatim>\<open>req.user\<close> to the next handler
  (\<open>Inr\<close>). \<open>now\<close> is the clock as \<^verbatim>\<open>jwt.verify\<close> reads it. Every throw inside its
  \<^verbatim>\<open>try\<close>, that of \<^verbatim>\<open>getDb\<close> included, ends in the same 401.
\<close>

definition authenticateUser :: "env \<Rightarrow> server \<Rightarrow> Date \<Rightarrow> string option \<Rightarrow> response + user" where
  "authenticateUser e s now authorization =
     (case bearer authorization of
        None \<Rightarrow> Inl not_authorized
      | Some token \<Rightarrow>
          if token = [] then Inl not_authorized
          else (case jwt_verify e token (JWT_SECRET e) now of
                  None \<Rightarrow> Inl not_authorized
                | Some decoded_id \<Rightarrow>
                    (case getDb s of
                       Inl err \<Rightarrow> Inl not_authorized
                     | Inr d \<Rightarrow>
                         (case ObjectId_new decoded_id of
                            Inl err \<Rightarrow> Inl not_authorized
                          | Inr oid \<Rightarrow>
                              (case findOne (\<lambda>u. u_id u = oid \<and> isActive u) (users d) of
                                 None \<Rightarrow> Inl not_authorized
                               | Some usr \<Rightarrow> Inr usr)))))"

definition authenticated ::
  "env \<Rightarrow> server \<Rightarrow> Date \<Rightarrow> string option \<Rightarrow> (user \<Rightarrow> response \<times> server) \<Rightarrow> response \<times> server" where
  "authenticated e s now authorization handler =
     (case authenticateUser e s now authorization of
        Inl res \<Rightarrow> (res, s)
      | Inr usr \<Rightarrow> handler usr)"

definition get_me :: "server \<Rightarrow> user \<Rightarrow> response \<times> server" where
  "get_me s usr =
     (Response 200
        (Profile (u_id usr) (username usr) (email usr) (role usr) (profile usr) (joinDate usr)),
      s)"

definition get_me_route :: "env \<Rightarrow> server \<Rightarrow> Date \<Rightarrow> string option \<Rightarrow> response \<times> server" where
  "get_me_route e s now authorization = authenticated e s now authorization (get_me s)"

definition delete_me :: "server \<Rightarrow> user \<Rightarrow> response \<times> server" where
  "delete_me s usr =
     (case getDb s of
        Inl err \<Rightarrow> (server_error, s)
      | Inr d \<Rightarrow>
          (case deleteOne (\<lambda>u. u_id u = u_id usr) (users d) of
             (deletedCount, us) \<Rightarrow>
               if deletedCount = 0
               then (Response 404 (Failure ''User not found'' ''USER_NOT_FOUND''), s)
               else (Response 200 (Message ''Account deleted successfully''),
                     s\<lparr>database := Some (d\<lparr>users := us\<rparr>)\<rparr>)))"

definition delete_me_route :: "env \<Rightarrow> server \<Rightarrow> Date \<Rightarrow> string option \<Rightarrow> response \<times> server" where
  "delete_me_route e s now authorization = authenticated e s now authorization (delete_me s)"

section \<open>Listings: \<^verbatim>\<open>bookRoutes.js\<close>\<close>

text \<open>
  The handlers below take \<^verbatim>\<open>req.user\<close> as the middleware left it and
  \<^verbatim>\<open>req.params.bookId\<close> as the string of the path. The body of an update is a list
  of field assignments, applied by \<^verbatim>\<open>$set\<close> with no allow-list; the assignments
  here are those that keep a listing's fields at their types, the like counter a number.
  The update and like handlers read \<^verbatim>\<open>result.value\<close> of what
  \<^verbatim>\<open>findOneAndUpdate\<close> answers: a \<^verbatim>\<open>TypeError\<close> when the answer is
  \<^verbatim>\<open>null\<close>, and \<^verbatim>\<open>undefined\<close> when it is a listing (a listing has no field of
  that name), so that the comparison with \<^verbatim>\<open>null\<close> is false and the response carries
  no data. By then the store has already been updated.
\<close>

datatype field =
    Title string | Author string | Genre string | Condition string | Description string
  | Image "image option" | Contact contact | Likes number

fun set_field :: "field \<Rightarrow> book \<Rightarrow> book" where
  "set_field (Title v) b = b\<lparr>title := v\<rparr>"
| "set_field (Author v) b = b\<lparr>author := v\<rparr>"
| "set_field (Genre v) b = b\<lparr>genre := v\<rparr>"
| "set_field (Condition v) b = b\<lparr>condition := v\<rparr>"
| "set_field (Description v) b = b\<lparr>description := v\<rparr>"
| "set_field (Image v) b = b\<lparr>image' := v\<rparr>"
| "set_field (Contact v) b = b\<lparr>contact := v\<rparr>"
| "set_field (Likes v) b = b\<lparr>likes := v\<rparr>"

definition apply_set :: "field list \<Rightarrow> book \<Rightarrow> book" where
  "apply_set updateData b = fold set_field updateData b"

definition log_error :: "string \<Rightarrow> server \<Rightarrow> server" where
  "log_error line s = s\<lparr>console := console s @ [line]\<rparr>"

definition not_found :: "string \<Rightarrow> response" where
  "not_found msg = Response 404 (Failure msg ''NOT_FOUND'')"

definition get_books :: "server \<Rightarrow> response \<times> server" where
  "get_books s =
     (case getDb s of
        Inl err \<Rightarrow> (server_error, s)
      | Inr d \<Rightarrow>
          (Response 200
             (BooksData (sort_key (\<lambda>b. - createdAt b) (books d)) ''Books retrieved successfully''),
           s))"

definition dot_value :: "book option \<Rightarrow> exn + js" where
  "dot_value result = (case result of None \<Rightarrow> Inl TypeError | Some doc \<Rightarrow> Inr Undefined)"

definition update_book :: "server \<Rightarrow> user \<Rightarrow> string \<Rightarrow> field list \<Rightarrow> response \<times> server" where
  "update_book s usr bookId updateData =
     (case getDb s of
        Inl err \<Rightarrow> (server_error, log_error ''Error updating book:'' s)
      | Inr d \<Rightarrow>
          (case ObjectId_new bookId of
             Inl err \<Rightarrow> (server_error, log_error ''Error updating book:'' s)
           | Inr bookIdObj \<Rightarrow>
               (case findOneAndUpdate (\<lambda>b. b_id b = bookIdObj \<and> userId b = u_id usr)
                       (apply_set updateData) (books d) of
                  (result, bs) \<Rightarrow>
                    let s1 = s\<lparr>database := Some (d\<lparr>books := bs\<rparr>)\<rparr> in
                    (case dot_value result of
                       Inl err \<Rightarrow> (server_error, log_error ''Error updating book:'' s1)
                     | Inr v \<Rightarrow>
                         if v = Null
                         then (not_found ''Book not found or access denied'', s1)
                         else (Response 200 (BookData v ''Book updated successfully''), s1)))))"

definition delete_book :: "env \<Rightarrow> server \<Rightarrow> user \<Rightarrow> string \<Rightarrow> response \<times> server" where
  "delete_book e s usr bookId =
     (case getDb s of
        Inl err \<Rightarrow> (server_error, log_error ''Error deleting book:'' s)
      | Inr d \<Rightarrow>
          (case ObjectId_new bookId of
             Inl err \<Rightarrow> (server_error, log_error ''Error deleting book:'' s)
           | Inr bookIdObj \<Rightarrow>
               (case findOne (\<lambda>b. b_id b = bookIdObj \<and> userId b = u_id usr) (books d) of
                  None \<Rightarrow> (not_found ''Book not found or access denied'', s)
                | Some bk \<Rightarrow>
                    let s1 = (case image' bk of
                                None \<Rightarrow> s
                              | Some img \<Rightarrow>
                                  if public_id img \<noteq> [] \<and> \<not> cloudinary_destroy e (public_id img)
                                  then log_error ''Error deleting image from Cloudinary:'' s
                                  else s) in
                    (case deleteOne (\<lambda>b. b_id b = bookIdObj \<and> userId b = u_id usr) (books d) of
                       (deletedCount, bs) \<Rightarrow>
                         if deletedCount = 0
                         then (not_found ''Book not found or already deleted'', s1)
                         else (Response 200
                                 (Message ''Book and associated image deleted successfully''),
                               s1\<lparr>database := Some (d\<lparr>books := bs\<rparr>)\<rparr>)))))"

definition inc_likes :: "book \<Rightarrow> exn + book" where
  "inc_likes b =
     (case inc_number (likes b) of Inl err \<Rightarrow> Inl err | Inr v \<Rightarrow> Inr (b\<lparr>likes := v\<rparr>))"

definition like_book :: "server \<Rightarrow> string \<Rightarrow> response \<times> server" where
  "like_book s bookId =
     (case getDb s of
        Inl err \<Rightarrow> (server_error, log_error ''Error updating likes:'' s)
      | Inr d \<Rightarrow>
          (case ObjectId_new bookId of
             Inl err \<Rightarrow> (server_error, log_error ''Error updating likes:'' s)
           | Inr bookIdObj \<Rightarrow>
               (case findOneAndApply (\<lambda>b. b_id b = bookIdObj) inc_likes (books d) of
                  Inl err \<Rightarrow> (server_error, log_error ''Error updating likes:'' s)
                | Inr (result, bs) \<Rightarrow>
                    let s1 = s\<lparr>database := Some (d\<lparr>books := bs\<rparr>)\<rparr> in
                    (case dot_value result of
                       Inl err \<Rightarrow> (server_error, log_error ''Error updating likes:'' s1)
                     | Inr v \<Rightarrow>
                         if v = Null
                         then (not_found ''Book not found'', s1)
                         else (Response 200 (BookData v ''Likes updated successfully''), s1)))))"

text \<open>The two owner routes behind the middleware.\<close>

definition put_my_books ::
  "env \<Rightarrow> server \<Rightarrow> Date \<Rightarrow> string option \<Rightarrow> string \<Rightarrow> field list \<Rightarrow> response \<times> server" where
  "put_my_books e s now authorization bookId updateData =
     authenticated e s now authorization (\<lambda>usr. update_book s usr bookId updateData)"

definition delete_my_books ::
  "env \<Rightarrow> server \<Rightarrow> Date \<Rightarrow> string option \<Rightarrow> string \<Rightarrow> response \<times> server" where
  "delete_my_books e s now authorization bookId =
     authenticated e s now authorization (\<lambda>usr. delete_book e s usr bookId)"

section \<open>The unique index on \<^verbatim>\<open>_id\<close>\<close>

text \<open>No two documents of a collection share an \<^verbatim>\<open>_id\<close>: the store enforces it.\<close>

definition unique_ids :: "db \<Rightarrow> bool" where
  "unique_ids d = (distinct (map u_id (users d)) \<and> distinct (map b_id (books d)))"

section \<open>A sample deployment\<close>

text \<open>
  Concrete stand-ins for the libraries and a small database, on which the handlers are
  run below. The stand-in token is the user id behind a fixed prefix, the stand-in hash
  is the password behind a fixed prefix; nothing is proved about the real libraries.
\<close>

definition sample_env :: env where
  "sample_env =
     \<lparr>JWT_SECRET = ''fallback_secret_change_in_production'',
      JWT_EXPIRES_IN = ''7d'',
      SALT_ROUNDS = 12,
      bcrypt_hash = (\<lambda>pw rounds. ''$2b$'' @ pw),
      bcrypt_compare = (\<lambda>pw h. h = ''$2b$'' @ pw),
      jwt_sign = (\<lambda>uid secret expires now. ''jwt.'' @ uid),
      jwt_verify = (\<lambda>tok secret now. if take 4 tok = ''jwt.'' then Some (drop 4 tok) else None),
      isEmail = (\<lambda>s. CHR ''@'' \<in> set s),
      normalizeEmail = (\<lambda>s. s),
      cloudinary_destroy = (\<lambda>pid. False)\<rparr>"

definition alice :: user where
  "alice =
     \<lparr>u_id = 10, username = ''alice123'', email = ''a@b.com'', password = ''$2b$Abcdef12'',
      joinDate = 0, lastLogin = None, loginAttempts = 5, lastFailedLogin = Some 1000000,
      isActive = True, role = ''user'', profile = []\<rparr>"

definition bob :: user where
  "bob =
     \<lparr>u_id = 11, username = ''bob_77'', email = ''bob@b.com'', password = ''$2b$Secret99'',
      joinDate = 500, lastLogin = None, loginAttempts = 0, lastFailedLogin = None,
      isActive = True, role = ''user'', profile = []\<rparr>"

definition dune :: book where
  "dune =
     \<lparr>b_id = 255, title = ''Dune'', author = ''Herbert'', genre = ''SF'', condition = ''good'',
      description = ''paperback'',
      image' = Some \<lparr>url = ''https://img/dune'', public_id = ''dune_1''\<rparr>,
      contact = \<lparr>app = ''telegram'', id' = ''@alice''\<rparr>,
      userId = 10, createdAt = 2000, likes = Int32 3\<rparr>"

definition emma :: book where
  "emma =
     \<lparr>b_id = 256, title = ''Emma'', author = ''Austen'', genre = ''novel'', condition = ''worn'',
      description = ''hardcover'',
      image' = Some \<lparr>url = ''https://img/emma'', public_id = ''emma_1''\<rparr>,
      contact = \<lparr>app = ''telegram'', id' = ''@bob''\<rparr>,
      userId = 11, createdAt = 3000, likes = Int32 0\<rparr>"

text \<open>A listing whose owner has set its like counter to the double 2^53.\<close>

definition tome :: book where
  "tome =
     \<lparr>b_id = 257, title = ''Tome'', author = ''Anon'', genre = ''epic'', condition = ''new'',
      description = ''boxed'',
      image' = None,
      contact = \<lparr>app = ''telegram'', id' = ''@bob''\<rparr>,
      userId = 11, createdAt = 4000, likes = Double 9007199254740992\<rparr>"

definition sample_db :: db where
  "sample_db = \<lparr>users = [alice, bob], books = [dune, emma]\<rparr>"

definition sample_server :: server where
  "sample_server = \<lparr>database = Some sample_db, console = []\<rparr>"

definition tome_server :: server where
  "tome_server = \<lparr>database = Some \<lparr>users = [alice, bob], books = [tome]\<rparr>, console = []\<rparr>"

definition clock_at :: "Date \<Rightarrow> nat \<Rightarrow> Date" where
  "clock_at t k = t + int k"

definition carol :: register_body where
  "carol = \<lparr>rb_username = ''carol_1'', rb_email = ''c@b.com'', rb_password = ''Abcdef12''\<rparr>"

definition carla :: register_body where
  "carla = \<lparr>rb_username = ''carla_2'', rb_email = ''c@b.com'', rb_password = ''Zyxwvu98''\<rparr>"

definition empty_server :: server where
  "empty_server = \<lparr>database = Some \<lparr>users = [], books = []\<rparr>, console = []\<rparr>"

section \<open>Properties\<close>

subsection \<open>Collections\<close>

lemma findOne_Some_mem: "findOne P xs = Some x \<Longrightarrow> x \<in> set xs \<and> P x"
  by (induction xs) (auto split: if_splits)

lemma findOne_None_iff: "findOne P xs = None \<longleftrightarrow> (\<forall>x \<in> set xs. \<not> P x)"
  by (induction xs) auto

lemma findOneAndUpdate_distinct:
  assumes "distinct (map key xs)" and "x \<in> set xs" and "\<And>y. key (f y) = key y"
  shows "findOneAndUpdate (\<lambda>y. key y = key x) f xs =
         (Some (f x), map (\<lambda>y. if key y = key x then f y else y) xs)"
  using assms(1,2)
proof (induction xs)
  case Nil
  then show ?case by simp
next
  case (Cons a xs)
  show ?case
  proof (cases "key a = key x")
    case True
    with Cons.prems have ax: "a = x"
      by (auto simp: image_iff)
    have "\<forall>y \<in> set xs. key y \<noteq> key x"
      using Cons.prems True by (auto simp: image_iff)
    then have "map (\<lambda>y. if key y = key x then f y else y) xs = xs"
      by (induction xs) auto
    with True ax show ?thesis by simp
  next
    case False
    with Cons.prems have "x \<in> set xs" and "distinct (map key xs)" by auto
    with Cons.IH False show ?thesis by simp
  qed
qed

lemma updateOne_distinct:
  assumes "distinct (map key xs)" and "x \<in> set xs" and "\<And>y. key (f y) = key y"
  shows "updateOne (\<lambda>y. key y = key x) f xs = map (\<lambda>y. if key y = key x then f y else y) xs"
  using assms by (simp add: updateOne_def findOneAndUpdate_distinct)

lemma findOneAndApply_none:
  "\<forall>x \<in> set xs. \<not> P x \<Longrightarrow> findOneAndApply P f xs = Inr (None, xs)"
  by (induction xs) auto

lemma findOneAndApply_distinct:
  assumes "distinct (map key xs)" and "x \<in> set xs" and "f x = Inr (g x)"
  shows "findOneAndApply (\<lambda>y. key y = key x) f xs =
         Inr (Some (g x), map (\<lambda>y. if key y = key x then g y else y) xs)"
  using assms(1,2)
proof (induction xs)
  case Nil
  then show ?case by simp
next
  case (Cons a xs)
  show ?case
  proof (cases "key a = key x")
    case True
    with Cons.prems have ax: "a = x"
      by (auto simp: image_iff)
    have "\<forall>y \<in> set xs. key y \<noteq> key x"
      using Cons.prems True by (auto simp: image_iff)
    then have "map (\<lambda>y. if key y = key x then g y else y) xs = xs"
      by (induction xs) auto
    with True ax assms(3) show ?thesis by simp
  next
    case False
    with Cons.prems have "x \<in> set xs" and "distinct (map key xs)" by auto
    with Cons.IH False show ?thesis by simp
  qed
qed

lemma findOneAndApply_failure:
  assumes "distinct (map key xs)" and "x \<in> set xs" and "f x = Inl err"
  shows "findOneAndApply (\<lambda>y. key y = key x) f xs = Inl err"
  using assms(1,2)
proof (induction xs)
  case Nil
  then show ?case by simp
next
  case (Cons a xs)
  show ?case
  proof (cases "key a = key x")
    case True
    with Cons.prems have "a = x"
      by (auto simp: image_iff)
    with True assms(3) show ?thesis by simp
  next
    case False
    with Cons.prems have "x \<in> set xs" and "distinct (map key xs)" by auto
    with Cons.IH False show ?thesis by simp
  qed
qed

lemma findOneAndApply_keys:
  assumes "\<And>y z. f y = Inr z \<Longrightarrow> key z = key y"
    and "findOneAndApply P f xs = Inr (r, ys)"
  shows "map key ys = map key xs"
  using assms(2)
proof (induction xs arbitrary: r ys)
  case Nil
  then show ?case by simp
next
  case (Cons a xs)
  show ?case
  proof (cases "P a")
    case True
    with Cons.prems assms(1) [of a] show ?thesis
      by (auto split: sum.splits)
  next
    case False
    with Cons.prems Cons.IH show ?thesis
      by (auto split: sum.splits)
  qed
qed

subsection \<open>Stored numbers\<close>

lemma bitlen_one: "bitlen 1 = 1"
  by code_simp

lemma rd53: "round_double 9007199254740992 = 9007199254740992"
  by code_simp

lemma pow2_pos: "0 < pow2 k"
  by (simp add: pow2_def)

lemma round_half_even_int: "round_half_even (of_int m) = m"
  by (simp add: round_half_even_def)

lemma round_double_int_pos:
  assumes "0 < m" and "m \<le> 2 ^ 53"
  shows "round_double (of_int m) = of_int m"
proof -
  have q: "quotient_of (of_int m :: rat) = (m, 1)"
    by simp
  from assms have bl: "1 \<le> bitlen m"
    by (simp add: bitlen_ge_iff_power)
  have lower: "(2 :: int) ^ nat (bitlen m - 1) \<le> m"
    using bitlen_bounds [OF assms(1)] by simp
  from assms have "m < 2 ^ 54"
    by simp
  then have up: "bitlen m \<le> 54"
    by (simp add: bitlen_le_iff_power)
  have c: "pow2 (bitlen m - 1) \<le> of_int m"
  proof -
    have "pow2 (bitlen m - 1) = of_int (2 ^ nat (bitlen m - 1))"
      using bl by (simp add: pow2_def)
    also have "\<dots> \<le> of_int m"
      using lower by (simp only: of_int_le_iff)
    finally show ?thesis .
  qed
  show ?thesis
  proof (cases "bitlen m = 54")
    case True
    then have "(2 :: int) ^ 53 \<le> m"
      using lower by simp
    with assms have m: "m = 2 ^ 53"
      by simp
    show ?thesis
      unfolding m using rd53 by simp
  next
    case False
    with up have le: "bitlen m - 53 \<le> 0"
      by simp
    define k where "k = nat (- (bitlen m - 53))"
    have p: "pow2 (bitlen m - 53) = 1 / 2 ^ k"
      using le by (cases "bitlen m - 53 = 0") (simp_all add: pow2_def k_def)
    have "(of_int m * 2 ^ k :: rat) = of_int (m * 2 ^ k)"
      by simp
    then have r: "round_half_even (of_int m * 2 ^ k) = m * 2 ^ k"
      by (simp only: round_half_even_int)
    show ?thesis
      using assms(1) c
      by (simp add: round_double_def Let_def q bitlen_one r p)
  qed
qed

lemma round_double_int:
  assumes "\<bar>m\<bar> \<le> 2 ^ 53"
  shows "round_double (of_int m) = of_int m"
proof (cases "m = 0")
  case True
  then show ?thesis by (simp add: round_double_def)
next
  case False
  show ?thesis
  proof (cases "0 < m")
    case True
    with assms show ?thesis by (simp add: round_double_int_pos)
  next
    case neg: False
    with False have pos: "0 < - m" by simp
    from assms have "- m \<le> 2 ^ 53" by simp
    from round_double_int_pos [OF pos this]
    have "round_double (of_int (- m)) = of_int (- m)" .
    moreover have "round_double (- q) = - round_double q" for q
      by (simp add: round_double_def Let_def)
    ultimately show ?thesis
      by simp
  qed
qed

subsection \<open>Every handler keeps the \<^verbatim>\<open>_id\<close>s unique\<close>

lemma findOneAndUpdate_keys:
  "(\<And>y. key (f y) = key y) \<Longrightarrow> map key (snd (findOneAndUpdate P f xs)) = map key xs"
  by (induction xs) (auto split: prod.splits)

lemma deleteOne_subset: "set (snd (deleteOne P xs)) \<subseteq> set xs"
  by (induction xs) (auto split: prod.splits)

lemma deleteOne_keys:
  "distinct (map key xs) \<Longrightarrow> distinct (map key (snd (deleteOne P xs)))"
proof (induction xs)
  case Nil
  then show ?case by simp
next
  case (Cons a xs)
  have "key a \<notin> key ` set (snd (deleteOne P xs))"
    using Cons.prems deleteOne_subset [of P xs] by auto
  with Cons show ?case
    by (auto split: prod.splits)
qed

lemma apply_set_keeps: "b_id (apply_set updateData b) = b_id b"
proof -
  have "\<And>f b. b_id (set_field f b) = b_id b"
    by (case_tac f) simp_all
  then have "\<And>b. b_id (fold set_field updateData b) = b_id b"
    by (induction updateData) simp_all
  then show ?thesis
    by (simp add: apply_set_def)
qed

lemma login_unique_ids:
  assumes "unique_ids d"
    and "database (snd (login e \<lparr>database = Some d, console = out\<rparr> tm req)) = Some d'"
  shows "unique_ids d'"
  using assms
  by (auto simp: login_def getDb_def Let_def unique_ids_def updateOne_def
      findOneAndUpdate_keys split: option.splits if_splits)

lemma register_unique_ids:
  assumes "unique_ids d"
    and "database (snd (register e \<lparr>database = Some d, console = out\<rparr> tm newId req)) = Some d'"
  shows "unique_ids d'"
  using assms
  by (auto simp: register_def getDb_def Let_def unique_ids_def insertOne_def
      split: option.splits if_splits)

lemma delete_me_unique_ids:
  assumes "unique_ids d"
    and "database (snd (delete_me \<lparr>database = Some d, console = out\<rparr> usr)) = Some d'"
  shows "unique_ids d'"
  using assms deleteOne_keys [of u_id "users d" "\<lambda>u. u_id u = u_id usr"]
  by (auto simp: delete_me_def getDb_def unique_ids_def split: prod.splits if_splits)

lemma findOneAndUpdate_keys_pair:
  assumes "\<And>y. key (f y) = key y" and "findOneAndUpdate P f xs = (r, ys)"
  shows "map key ys = map key xs"
  using findOneAndUpdate_keys [of key f P xs] assms by simp

lemma deleteOne_keys_pair:
  assumes "distinct (map key xs)" and "deleteOne P xs = (n, ys)"
  shows "distinct (map key ys)"
  using deleteOne_keys [of key xs P] assms by simp

lemma delete_book_unique_ids:
  assumes "unique_ids d"
    and "database (snd (delete_book e \<lparr>database = Some d, console = out\<rparr> usr bookId)) = Some d'"
  shows "unique_ids d'"
  using assms
  by (auto simp: delete_book_def getDb_def unique_ids_def log_error_def Let_def
      split: sum.splits prod.splits option.splits if_splits
      dest: deleteOne_keys_pair [where key = b_id])

lemma inc_likes_keeps: "inc_likes b = Inr b' \<Longrightarrow> b_id b' = b_id b"
  by (auto simp: inc_likes_def split: sum.splits)

lemma like_keys_pair:
  assumes "findOneAndApply P inc_likes xs = Inr (r, ys)"
  shows "map b_id ys = map b_id xs"
  using inc_likes_keeps assms by (rule findOneAndApply_keys [where key = b_id])

lemma update_book_unique_ids:
  assumes "unique_ids d"
    and "database (snd (update_book \<lparr>database = Some d, console = out\<rparr> usr bookId updateData)) =
         Some d'"
  shows "unique_ids d'"
  using assms
  by (auto simp: update_book_def getDb_def unique_ids_def log_error_def Let_def
      split: sum.splits prod.splits option.splits if_splits
      dest: findOneAndUpdate_keys_pair [where key = b_id, OF apply_set_keeps])

lemma like_book_unique_ids:
  assumes "unique_ids d"
    and "database (snd (like_book \<lparr>database = Some d, console = out\<rparr> bookId)) = Some d'"
  shows "unique_ids d'"
  using assms
  by (auto simp: like_book_def getDb_def unique_ids_def log_error_def Let_def
      split: sum.splits prod.splits option.splits if_splits
      dest: like_keys_pair)

subsection \<open>The routes behind the middleware\<close>

lemma put_my_books_authenticated:
  "authenticateUser e s now authorization = Inr usr \<Longrightarrow>
   put_my_books e s now authorization bookId updateData = update_book s usr bookId updateData"
  by (simp add: put_my_books_def authenticated_def)

lemma delete_my_books_authenticated:
  "authenticateUser e s now authorization = Inr usr \<Longrightarrow>
   delete_my_books e s now authorization bookId = delete_book e s usr bookId"
  by (simp add: delete_my_books_def authenticated_def)

lemma delete_me_route_authenticated:
  "authenticateUser e s now authorization = Inr usr \<Longrightarrow>
   delete_me_route e s now authorization = delete_me s usr"
  by (simp add: delete_me_route_def authenticated_def)

lemma authenticateUser_stored:
  "authenticateUser e \<lparr>database = Some d, console = out\<rparr> now authorization = Inr usr \<Longrightarrow>
   usr \<in> set (users d) \<and> isActive usr"
  by (auto simp: authenticateUser_def getDb_def
      split: option.splits if_splits sum.splits dest: findOne_Some_mem)

subsection \<open>Login: the two stages\<close>

lemma locked_iff: "minutesSince now t < LOGIN_WINDOW_MINUTES \<longleftrightarrow> now - t < 900000"
proof -
  have "minutesSince now t < LOGIN_WINDOW_MINUTES \<longleftrightarrow> (of_int (now - t) :: rat) < of_int 900000"
    by (simp add: minutesSince_def LOGIN_WINDOW_MINUTES_def pos_divide_less_eq)
  then show ?thesis
    by (simp only: of_int_less_iff)
qed

lemma login_unknown:
  assumes "findOne (\<lambda>u. email u = lb_email req) (users d) = None"
  shows "login e \<lparr>database = Some d, console = out\<rparr> tm req =
         (invalid_credentials, \<lparr>database = Some d, console = out\<rparr>)"
  using assms by (simp add: login_def getDb_def sanitizeInput_def)

lemma login_locked:
  assumes "findOne (\<lambda>u. email u = lb_email req) (users d) = Some usr"
    and "MAX_LOGIN_ATTEMPTS \<le> loginAttempts usr"
    and "lastFailedLogin usr = Some t"
    and "tm 0 - t < 900000"
  shows "login e \<lparr>database = Some d, console = out\<rparr> tm req =
         (Response 429 (Failure (locked_message (minutesSince (tm 0) t)) ''ACCOUNT_LOCKED''),
          \<lparr>database = Some d, console = out\<rparr>)"
  using assms by (simp add: login_def getDb_def sanitizeInput_def locked_iff)

lemma login_unlocked:
  assumes "findOne (\<lambda>u. email u = lb_email req) (users d) = Some usr"
    and "loginAttempts usr < MAX_LOGIN_ATTEMPTS
         \<or> (\<exists>t. lastFailedLogin usr = Some t \<and> 900000 \<le> tm 0 - t)"
  shows "login e \<lparr>database = Some d, console = out\<rparr> tm req =
         (if bcrypt_compare e (lb_password req) (password usr)
          then (Response 200
                  (LoggedIn (u_id usr) (username usr) (email usr) (role usr) (profile usr)
                     (generateToken e (tm 4) (toHexString (u_id usr)))),
                \<lparr>database = Some (d\<lparr>users :=
                    updateOne (\<lambda>u. u_id u = u_id usr)
                      (\<lambda>u. u\<lparr>loginAttempts := 0, lastLogin := Some (tm 3)\<rparr>) (users d)\<rparr>),
                  console = out\<rparr>)
          else (invalid_credentials,
                \<lparr>database = Some (d\<lparr>users :=
                    updateOne (\<lambda>u. u_id u = u_id usr)
                      (\<lambda>u. u\<lparr>loginAttempts := loginAttempts u + 1,
                             lastFailedLogin := Some (tm 2)\<rparr>) (users d)\<rparr>),
                  console = out\<rparr>))"
  using assms by (auto simp: login_def getDb_def sanitizeInput_def locked_iff)

subsection \<open>C1: the lock-out window\<close>

lemma msg14:
  "locked_message (minutesSince (clock_at 1060000 0) 1000000) =
   ''Account locked. Try again in 14 minutes.''"
  by code_simp

lemma tokA: "toHexString 10 = ''00000000000000000000000a''"
  by code_simp

lemma hex11: "toHexString 11 = ''00000000000000000000000b''"
  by code_simp

lemma locked_text:
  "''Account locked. Try again in '' @ show_int \<lceil>(15 :: rat) - of_int (now - t) / 60000\<rceil>
     @ '' minutes.'' = locked_message (minutesSince now t)"
  by (simp add: locked_message_def minutesSince_def LOGIN_WINDOW_MINUTES_def)

lemma msg15: "locked_message (minutesSince (clock_at 1000000 0) 1000000) =
   ''Account locked. Try again in 15 minutes.''"
  by code_simp

lemma msg15': "locked_message (minutesSince (clock_at 1000001 0) 1000000) =
   ''Account locked. Try again in 15 minutes.''"
  by code_simp

lemma msg14': "locked_message (minutesSince (clock_at 1060001 0) 1000000) =
   ''Account locked. Try again in 14 minutes.''"
  by code_simp

lemma msg1: "locked_message (minutesSince (clock_at 1899999 0) 1000000) =
   ''Account locked. Try again in 1 minutes.''"
  by code_simp

text \<open>
  C1. Let the login request's email resolve to an account. If its failed-login counter is
  at least 5 and its last failed login is less than 15 minutes (900000 ms) before the
  clock reading of the check, the answer is 429 with code \<^verbatim>\<open>ACCOUNT_LOCKED\<close> and the
  message \<^verbatim>\<open>Account locked. Try again in n minutes.\<close>, where n is 15 minus the elapsed
  minutes, rounded up, and nothing is stored. Once 15 minutes have elapsed, or while
  the counter is below 5, the answer is that of the password comparison: 200 with a token
  signed for the account's id and the counter set to 0, or 401 with the counter
  incremented and the failure stamped. Every login answered with 200 leaves the account's
  counter at 0.
\<close>

theorem lockout_window:
  assumes found: "findOne (\<lambda>u. email u = lb_email req) (users d) = Some usr"
    and ids: "distinct (map u_id (users d))"
  shows "(5 \<le> loginAttempts usr \<and> lastFailedLogin usr = Some t
            \<and> tm 0 - t < 15 * 60 * 1000 \<longrightarrow>
          login e \<lparr>database = Some d, console = out\<rparr> tm req =
            (Response 429
               (Failure (''Account locked. Try again in '' @
                           show_int \<lceil>(15 :: rat) - of_int (tm 0 - t) / 60000\<rceil> @ '' minutes.'')
                  ''ACCOUNT_LOCKED''),
             \<lparr>database = Some d, console = out\<rparr>))
       \<and> ((lastFailedLogin usr = Some t \<and> 15 * 60 * 1000 \<le> tm 0 - t)
            \<or> loginAttempts usr < 5 \<longrightarrow>
          login e \<lparr>database = Some d, console = out\<rparr> tm req =
            (if bcrypt_compare e (lb_password req) (password usr)
             then (Response 200
                     (LoggedIn (u_id usr) (username usr) (email usr) (role usr) (profile usr)
                        (jwt_sign e (toHexString (u_id usr)) (JWT_SECRET e) (JWT_EXPIRES_IN e)
                           (tm 4))),
                   \<lparr>database = Some (d\<lparr>users :=
                       map (\<lambda>u. if u_id u = u_id usr
                                 then u\<lparr>loginAttempts := 0, lastLogin := Some (tm 3)\<rparr> else u)
                         (users d)\<rparr>),
                     console = out\<rparr>)
             else (Response 401 (Failure ''Invalid credentials'' ''INVALID_CREDENTIALS''),
                   \<lparr>database = Some (d\<lparr>users :=
                       map (\<lambda>u. if u_id u = u_id usr
                                 then u\<lparr>loginAttempts := loginAttempts u + 1,
                                        lastFailedLogin := Some (tm 2)\<rparr> else u)
                         (users d)\<rparr>),
                     console = out\<rparr>)))
       \<and> (status (fst (login e \<lparr>database = Some d, console = out\<rparr> tm req)) = 200 \<longrightarrow>
          snd (login e \<lparr>database = Some d, console = out\<rparr> tm req) =
            \<lparr>database = Some (d\<lparr>users :=
                map (\<lambda>u. if u_id u = u_id usr
                          then u\<lparr>loginAttempts := 0, lastLogin := Some (tm 3)\<rparr> else u)
                  (users d)\<rparr>),
              console = out\<rparr>)"
    (is "(?h1 \<longrightarrow> ?c1) \<and> (?h2 \<longrightarrow> ?c2) \<and> (?h3 \<longrightarrow> ?c3)")
proof -
  have mem: "usr \<in> set (users d)"
    using found by (auto dest: findOne_Some_mem)
  have reset: "updateOne (\<lambda>u. u_id u = u_id usr)
                 (\<lambda>u. u\<lparr>loginAttempts := 0, lastLogin := Some (tm 3)\<rparr>) (users d) =
               map (\<lambda>u. if u_id u = u_id usr
                         then u\<lparr>loginAttempts := 0, lastLogin := Some (tm 3)\<rparr> else u) (users d)"
    using ids mem by (rule updateOne_distinct) simp
  have bump: "updateOne (\<lambda>u. u_id u = u_id usr)
                 (\<lambda>u. u\<lparr>loginAttempts := loginAttempts u + 1, lastFailedLogin := Some (tm 2)\<rparr>)
                 (users d) =
               map (\<lambda>u. if u_id u = u_id usr
                         then u\<lparr>loginAttempts := loginAttempts u + 1,
                                lastFailedLogin := Some (tm 2)\<rparr> else u) (users d)"
    using ids mem by (rule updateOne_distinct) simp
  have one: "?h1 \<longrightarrow> ?c1"
    unfolding locked_text
    using login_locked [where tm = tm, OF found]
    by (simp add: MAX_LOGIN_ATTEMPTS_def)
  have two: "?h2 \<longrightarrow> ?c2"
  proof
    assume "?h2"
    then have "loginAttempts usr < MAX_LOGIN_ATTEMPTS
         \<or> (\<exists>t. lastFailedLogin usr = Some t \<and> 900000 \<le> tm 0 - t)"
      by (auto simp: MAX_LOGIN_ATTEMPTS_def)
    from login_unlocked [where tm = tm, OF found this] show "?c2"
      by (simp only: reset bump generateToken_def invalid_credentials_def)
  qed
  have three: "?h3 \<longrightarrow> ?c3"
    using found
    by (simp add: login_def getDb_def sanitizeInput_def Let_def invalid_credentials_def reset)
  from one two three show ?thesis by blast
qed


theorem lockout_window_witness:
  "findOne (\<lambda>u. email u = ''a@b.com'') (users sample_db) = Some alice
   \<and> distinct (map u_id (users sample_db))
   \<and> 5 \<le> loginAttempts alice
   \<and> lastFailedLogin alice = Some 1000000
   \<and> clock_at 1000000 0 - 1000000 < 15 * 60 * 1000
   \<and> login sample_env sample_server (clock_at 1000000)
        \<lparr>lb_email = ''a@b.com'', lb_password = ''Abcdef12''\<rparr> =
       (Response 429 (Failure ''Account locked. Try again in 15 minutes.'' ''ACCOUNT_LOCKED''),
        sample_server)
   \<and> clock_at 1000001 0 - 1000000 < 15 * 60 * 1000
   \<and> login sample_env sample_server (clock_at 1000001)
        \<lparr>lb_email = ''a@b.com'', lb_password = ''Abcdef12''\<rparr> =
       (Response 429 (Failure ''Account locked. Try again in 15 minutes.'' ''ACCOUNT_LOCKED''),
        sample_server)
   \<and> clock_at 1060000 0 - 1000000 < 15 * 60 * 1000
   \<and> login sample_env sample_server (clock_at 1060000)
        \<lparr>lb_email = ''a@b.com'', lb_password = ''Abcdef12''\<rparr> =
       (Response 429 (Failure ''Account locked. Try again in 14 minutes.'' ''ACCOUNT_LOCKED''),
        sample_server)
   \<and> clock_at 1060001 0 - 1000000 < 15 * 60 * 1000
   \<and> login sample_env sample_server (clock_at 1060001)
        \<lparr>lb_email = ''a@b.com'', lb_password = ''Abcdef12''\<rparr> =
       (Response 429 (Failure ''Account locked. Try again in 14 minutes.'' ''ACCOUNT_LOCKED''),
        sample_server)
   \<and> clock_at 1899999 0 - 1000000 < 15 * 60 * 1000
   \<and> login sample_env sample_server (clock_at 1899999)
        \<lparr>lb_email = ''a@b.com'', lb_password = ''Abcdef12''\<rparr> =
       (Response 429 (Failure ''Account locked. Try again in 1 minutes.'' ''ACCOUNT_LOCKED''),
        sample_server)
   \<and> 15 * 60 * 1000 \<le> clock_at 1900000 0 - 1000000
   \<and> login sample_env sample_server (clock_at 1900000)
        \<lparr>lb_email = ''a@b.com'', lb_password = ''Abcdef12''\<rparr> =
       (Response 200 (LoggedIn 10 ''alice123'' ''a@b.com'' ''user'' []
                        ''jwt.00000000000000000000000a''),
        \<lparr>database = Some \<lparr>users = [alice\<lparr>loginAttempts := 0, lastLogin := Some 1900003\<rparr>, bob],
                           books = [dune, emma]\<rparr>,
          console = []\<rparr>)
   \<and> login sample_env sample_server (clock_at 1900000)
        \<lparr>lb_email = ''a@b.com'', lb_password = ''Wrong''\<rparr> =
       (Response 401 (Failure ''Invalid credentials'' ''INVALID_CREDENTIALS''),
        \<lparr>database = Some \<lparr>users = [alice\<lparr>loginAttempts := 6,
                                              lastFailedLogin := Some 1900002\<rparr>, bob],
                           books = [dune, emma]\<rparr>,
          console = []\<rparr>)"
  using lockout_window [where req = "\<lparr>lb_email = ''a@b.com'', lb_password = ''Abcdef12''\<rparr>"
      and d = sample_db and usr = alice and t = 1000000 and tm = "clock_at 1000000"
      and e = sample_env and out = "[]"]
    lockout_window [where req = "\<lparr>lb_email = ''a@b.com'', lb_password = ''Abcdef12''\<rparr>"
      and d = sample_db and usr = alice and t = 1000000 and tm = "clock_at 1000001"
      and e = sample_env and out = "[]"]
    lockout_window [where req = "\<lparr>lb_email = ''a@b.com'', lb_password = ''Abcdef12''\<rparr>"
      and d = sample_db and usr = alice and t = 1000000 and tm = "clock_at 1060000"
      and e = sample_env and out = "[]"]
    lockout_window [where req = "\<lparr>lb_email = ''a@b.com'', lb_password = ''Abcdef12''\<rparr>"
      and d = sample_db and usr = alice and t = 1000000 and tm = "clock_at 1060001"
      and e = sample_env and out = "[]"]
    lockout_window [where req = "\<lparr>lb_email = ''a@b.com'', lb_password = ''Abcdef12''\<rparr>"
      and d = sample_db and usr = alice and t = 1000000 and tm = "clock_at 1899999"
      and e = sample_env and out = "[]"]
    lockout_window [where req = "\<lparr>lb_email = ''a@b.com'', lb_password = ''Abcdef12''\<rparr>"
      and d = sample_db and usr = alice and t = 1000000 and tm = "clock_at 1900000"
      and e = sample_env and out = "[]"]
    lockout_window [where req = "\<lparr>lb_email = ''a@b.com'', lb_password = ''Wrong''\<rparr>"
      and d = sample_db and usr = alice and t = 1000000 and tm = "clock_at 1900000"
      and e = sample_env and out = "[]"]
    tokA
  unfolding locked_text msg15 msg15' msg14 msg14' msg1
  by (simp add: sample_db_def sample_server_def sample_env_def alice_def bob_def
      clock_at_def)

subsection \<open>C9: the lock-out check comes before the password comparison\<close>

text \<open>
  C9. For an account with failed-login counter at least 5 whose last failure is less than
  15 minutes before the check, login answers 429 \<^verbatim>\<open>ACCOUNT_LOCKED\<close> even when the
  submitted password matches the stored hash, and the stored state after the attempt is
  the state before it: neither the failed-login counter nor the last-login stamp changes.
\<close>

theorem locked_despite_correct_password:
  assumes found: "findOne (\<lambda>u. email u = lb_email req) (users d) = Some usr"
    and many: "MAX_LOGIN_ATTEMPTS \<le> loginAttempts usr"
    and stamp: "lastFailedLogin usr = Some t"
    and recent: "tm 0 - t < 15 * 60 * 1000"
    and right: "bcrypt_compare e (lb_password req) (password usr)"
  shows "login e \<lparr>database = Some d, console = out\<rparr> tm req =
           (Response 429 (Failure (locked_message (minutesSince (tm 0) t)) ''ACCOUNT_LOCKED''),
            \<lparr>database = Some d, console = out\<rparr>)"
  using login_locked [where tm = tm, OF found many stamp] recent by simp

theorem locked_despite_correct_password_witness:
  "findOne (\<lambda>u. email u = ''a@b.com'') (users sample_db) = Some alice
   \<and> MAX_LOGIN_ATTEMPTS \<le> loginAttempts alice
   \<and> lastFailedLogin alice = Some 1000000
   \<and> clock_at 1060000 0 - 1000000 < 15 * 60 * 1000
   \<and> bcrypt_compare sample_env ''Abcdef12'' (password alice)
   \<and> login sample_env sample_server (clock_at 1060000)
        \<lparr>lb_email = ''a@b.com'', lb_password = ''Abcdef12''\<rparr> =
       (Response 429 (Failure ''Account locked. Try again in 14 minutes.'' ''ACCOUNT_LOCKED''),
        \<lparr>database = Some \<lparr>users = [alice, bob], books = [dune, emma]\<rparr>, console = []\<rparr>)
   \<and> loginAttempts alice = 5 \<and> lastLogin alice = None"
  using locked_despite_correct_password
      [where req = "\<lparr>lb_email = ''a@b.com'', lb_password = ''Abcdef12''\<rparr>"
        and d = sample_db and usr = alice and t = 1000000 and tm = "clock_at 1060000"
        and e = sample_env and out = "[]"]
    msg14
  by (simp add: sample_db_def sample_server_def sample_env_def alice_def bob_def
      MAX_LOGIN_ATTEMPTS_def clock_at_def)

subsection \<open>C5: the 401 answers of login\<close>

text \<open>
  A password that does not match the stored hash is not always answered with 401: for the
  locked account below the answer is 429 and nothing is stored, because the lock-out
  check returns before the comparison.
\<close>

theorem mismatch_while_locked_counterexample:
  "findOne (\<lambda>u. email u = ''a@b.com'') (users sample_db) = Some alice
   \<and> \<not> bcrypt_compare sample_env ''Wrong999'' (password alice)
   \<and> login sample_env sample_server (clock_at 1060000)
        \<lparr>lb_email = ''a@b.com'', lb_password = ''Wrong999''\<rparr> =
       (Response 429 (Failure ''Account locked. Try again in 14 minutes.'' ''ACCOUNT_LOCKED''),
        sample_server)
   \<and> status (fst (login sample_env sample_server (clock_at 1060000)
        \<lparr>lb_email = ''a@b.com'', lb_password = ''Wrong999''\<rparr>)) \<noteq> 401"
  using login_locked
      [where req = "\<lparr>lb_email = ''a@b.com'', lb_password = ''Wrong999''\<rparr>"
        and d = sample_db and usr = alice and t = 1000000 and tm = "clock_at 1060000"
        and e = sample_env and out = "[]"]
    msg14
  by (simp add: sample_db_def sample_server_def sample_env_def alice_def bob_def
      MAX_LOGIN_ATTEMPTS_def clock_at_def)

text \<open>
  C5, amended. Login answers 401 \<^verbatim>\<open>INVALID_CREDENTIALS\<close> when the email matches no
  stored user, and when the account is not locked out and the password does not match the
  stored hash. In the second case, and only in it, the failed-login counter of that
  account is incremented and the failure time stamped, every other account staying as it
  is. An unknown email leaves the stored state as it was. So does a locked-out account
  (counter at least 5, last failure, or the clock itself when none is stored, less than
  900000 ms before the check), which is answered 429 \<^verbatim>\<open>ACCOUNT_LOCKED\<close> with the remaining
  minutes whatever the password; and a matching password on an account that is not locked
  out is answered 200 with a token, the counter reset and the login time stamped.
\<close>

theorem invalid_credentials_cases:
  assumes ids: "distinct (map u_id (users d))"
    and stamp: "stamp = (case lastFailedLogin usr of Some t \<Rightarrow> t | None \<Rightarrow> tm 1)"
  shows
  "(findOne (\<lambda>u. email u = lb_email req) (users d) = None \<longrightarrow>
      login e \<lparr>database = Some d, console = out\<rparr> tm req =
        (Response 401 (Failure ''Invalid credentials'' ''INVALID_CREDENTIALS''),
         \<lparr>database = Some d, console = out\<rparr>))
   \<and> (findOne (\<lambda>u. email u = lb_email req) (users d) = Some usr
       \<and> \<not> (5 \<le> loginAttempts usr \<and> tm 0 - stamp < 15 * 60 * 1000)
       \<and> \<not> bcrypt_compare e (lb_password req) (password usr) \<longrightarrow>
      login e \<lparr>database = Some d, console = out\<rparr> tm req =
        (Response 401 (Failure ''Invalid credentials'' ''INVALID_CREDENTIALS''),
         \<lparr>database = Some (d\<lparr>users :=
             map (\<lambda>u. if u_id u = u_id usr
                       then u\<lparr>loginAttempts := loginAttempts u + 1,
                              lastFailedLogin := Some (tm 2)\<rparr> else u)
               (users d)\<rparr>),
           console = out\<rparr>))
   \<and> (findOne (\<lambda>u. email u = lb_email req) (users d) = Some usr
       \<and> 5 \<le> loginAttempts usr \<and> tm 0 - stamp < 15 * 60 * 1000 \<longrightarrow>
      login e \<lparr>database = Some d, console = out\<rparr> tm req =
        (Response 429
           (Failure (''Account locked. Try again in '' @
                       show_int \<lceil>(15 :: rat) - of_int (tm 0 - stamp) / 60000\<rceil> @ '' minutes.'')
              ''ACCOUNT_LOCKED''),
         \<lparr>database = Some d, console = out\<rparr>))
   \<and> (findOne (\<lambda>u. email u = lb_email req) (users d) = Some usr
       \<and> \<not> (5 \<le> loginAttempts usr \<and> tm 0 - stamp < 15 * 60 * 1000)
       \<and> bcrypt_compare e (lb_password req) (password usr) \<longrightarrow>
      login e \<lparr>database = Some d, console = out\<rparr> tm req =
        (Response 200
           (LoggedIn (u_id usr) (username usr) (email usr) (role usr) (profile usr)
              (jwt_sign e (toHexString (u_id usr)) (JWT_SECRET e) (JWT_EXPIRES_IN e) (tm 4))),
         \<lparr>database = Some (d\<lparr>users :=
             map (\<lambda>u. if u_id u = u_id usr
                       then u\<lparr>loginAttempts := 0, lastLogin := Some (tm 3)\<rparr> else u)
               (users d)\<rparr>),
           console = out\<rparr>))"
    (is "(?n \<longrightarrow> ?c1) \<and> (?f \<and> \<not> ?l \<and> \<not> ?p \<longrightarrow> ?c2) \<and> (?f \<and> ?l1 \<and> ?l2 \<longrightarrow> ?c3)
         \<and> (?f \<and> \<not> ?l \<and> ?p \<longrightarrow> ?c4)")
proof -
  have one: "?n \<longrightarrow> ?c1"
    by (simp add: login_def getDb_def sanitizeInput_def invalid_credentials_def)
  have upd: "updateOne (\<lambda>u. u_id u = u_id usr) f (users d) =
             map (\<lambda>u. if u_id u = u_id usr then f u else u) (users d)"
    if "?f" and "\<And>u. u_id (f u) = u_id u" for f
  proof -
    from that(1) have "usr \<in> set (users d)"
      by (auto dest: findOne_Some_mem)
    with ids show ?thesis
      by (rule updateOne_distinct) (rule that(2))
  qed
  have two: "?f \<and> \<not> ?l \<and> \<not> ?p \<longrightarrow> ?c2"
  proof
    assume a: "?f \<and> \<not> ?l \<and> \<not> ?p"
    have u: "updateOne (\<lambda>u. u_id u = u_id usr)
               (\<lambda>u. u\<lparr>loginAttempts := loginAttempts u + 1, lastFailedLogin := Some (tm 2)\<rparr>)
               (users d) =
             map (\<lambda>u. if u_id u = u_id usr
                       then u\<lparr>loginAttempts := loginAttempts u + 1,
                              lastFailedLogin := Some (tm 2)\<rparr> else u) (users d)"
      using a by (intro upd) simp_all
    from a show "?c2"
      unfolding u [symmetric]
      by (simp add: login_def getDb_def sanitizeInput_def Let_def invalid_credentials_def
          locked_iff MAX_LOGIN_ATTEMPTS_def stamp [symmetric])
  qed
  have three: "?f \<and> ?l1 \<and> ?l2 \<longrightarrow> ?c3"
    unfolding locked_text
    by (simp add: login_def getDb_def sanitizeInput_def Let_def locked_iff
        MAX_LOGIN_ATTEMPTS_def stamp [symmetric])
  have four: "?f \<and> \<not> ?l \<and> ?p \<longrightarrow> ?c4"
  proof
    assume a: "?f \<and> \<not> ?l \<and> ?p"
    have u: "updateOne (\<lambda>u. u_id u = u_id usr)
               (\<lambda>u. u\<lparr>loginAttempts := 0, lastLogin := Some (tm 3)\<rparr>) (users d) =
             map (\<lambda>u. if u_id u = u_id usr
                       then u\<lparr>loginAttempts := 0, lastLogin := Some (tm 3)\<rparr> else u) (users d)"
      using a by (intro upd) simp_all
    from a show "?c4"
      unfolding u [symmetric]
      by (simp add: login_def getDb_def sanitizeInput_def Let_def generateToken_def
          locked_iff MAX_LOGIN_ATTEMPTS_def stamp [symmetric])
  qed
  from one two three four show ?thesis by blast
qed

theorem invalid_credentials_cases_witness:
  "distinct (map u_id (users sample_db))
   \<and> findOne (\<lambda>u. email u = ''nobody@b.com'') (users sample_db) = None
   \<and> login sample_env sample_server (clock_at 1060000)
        \<lparr>lb_email = ''nobody@b.com'', lb_password = ''Abcdef12''\<rparr> =
       (Response 401 (Failure ''Invalid credentials'' ''INVALID_CREDENTIALS''), sample_server)
   \<and> findOne (\<lambda>u. email u = ''bob@b.com'') (users sample_db) = Some bob
   \<and> loginAttempts bob < 5
   \<and> \<not> bcrypt_compare sample_env ''Wrong999'' (password bob)
   \<and> login sample_env sample_server (clock_at 1060000)
        \<lparr>lb_email = ''bob@b.com'', lb_password = ''Wrong999''\<rparr> =
       (Response 401 (Failure ''Invalid credentials'' ''INVALID_CREDENTIALS''),
        \<lparr>database = Some \<lparr>users = [alice, bob\<lparr>loginAttempts := 1,
                                                   lastFailedLogin := Some 1060002\<rparr>],
                           books = [dune, emma]\<rparr>,
          console = []\<rparr>)
   \<and> findOne (\<lambda>u. email u = ''a@b.com'') (users sample_db) = Some alice
   \<and> 5 \<le> loginAttempts alice
   \<and> lastFailedLogin alice = Some 1000000
   \<and> clock_at 1060000 0 - 1000000 < 15 * 60 * 1000
   \<and> login sample_env sample_server (clock_at 1060000)
        \<lparr>lb_email = ''a@b.com'', lb_password = ''Wrong999''\<rparr> =
       (Response 429 (Failure ''Account locked. Try again in 14 minutes.'' ''ACCOUNT_LOCKED''),
        sample_server)
   \<and> bcrypt_compare sample_env ''Secret99'' (password bob)
   \<and> login sample_env sample_server (clock_at 1060000)
        \<lparr>lb_email = ''bob@b.com'', lb_password = ''Secret99''\<rparr> =
       (Response 200 (LoggedIn 11 ''bob_77'' ''bob@b.com'' ''user'' []
                        ''jwt.00000000000000000000000b''),
        \<lparr>database = Some \<lparr>users = [alice, bob\<lparr>loginAttempts := 0,
                                                   lastLogin := Some 1060003\<rparr>],
                           books = [dune, emma]\<rparr>,
          console = []\<rparr>)"
proof -
  have ids: "distinct (map u_id (users sample_db))"
    by (simp add: sample_db_def alice_def bob_def)
  have nobody: "findOne (\<lambda>u. email u = ''nobody@b.com'') (users sample_db) = None"
    by (simp add: sample_db_def alice_def bob_def)
  have fb: "findOne (\<lambda>u. email u = ''bob@b.com'') (users sample_db) = Some bob"
    by (simp add: sample_db_def alice_def bob_def)
  have fa: "findOne (\<lambda>u. email u = ''a@b.com'') (users sample_db) = Some alice"
    by (simp add: sample_db_def alice_def bob_def)
  have sb: "(1060001 :: int) = (case lastFailedLogin bob of Some t \<Rightarrow> t
                                | None \<Rightarrow> clock_at 1060000 1)"
    by (simp add: bob_def clock_at_def)
  have sa: "(1000000 :: int) = (case lastFailedLogin alice of Some t \<Rightarrow> t
                                | None \<Rightarrow> clock_at 1060000 1)"
    by (simp add: alice_def)
  have one: "login sample_env sample_server (clock_at 1060000)
        \<lparr>lb_email = ''nobody@b.com'', lb_password = ''Abcdef12''\<rparr> =
       (Response 401 (Failure ''Invalid credentials'' ''INVALID_CREDENTIALS''), sample_server)"
    using invalid_credentials_cases
      [where req = "\<lparr>lb_email = ''nobody@b.com'', lb_password = ''Abcdef12''\<rparr>"
        and d = sample_db and tm = "clock_at 1060000" and e = sample_env and out = "[]"
        and usr = bob and stamp = 1060001, OF ids sb, THEN conjunct1] nobody
    by (simp add: sample_server_def)
  have nb: "\<not> bcrypt_compare sample_env ''Wrong999'' (password bob)"
    by (simp add: sample_env_def bob_def)
  have yb: "bcrypt_compare sample_env ''Secret99'' (password bob)"
    by (simp add: sample_env_def bob_def)
  have lb: "loginAttempts bob < 5"
    by (simp add: bob_def)
  have two: "login sample_env sample_server (clock_at 1060000)
        \<lparr>lb_email = ''bob@b.com'', lb_password = ''Wrong999''\<rparr> =
       (Response 401 (Failure ''Invalid credentials'' ''INVALID_CREDENTIALS''),
        \<lparr>database = Some \<lparr>users = [alice, bob\<lparr>loginAttempts := 1,
                                                   lastFailedLogin := Some 1060002\<rparr>],
                           books = [dune, emma]\<rparr>,
          console = []\<rparr>)"
    using invalid_credentials_cases
      [where req = "\<lparr>lb_email = ''bob@b.com'', lb_password = ''Wrong999''\<rparr>"
        and d = sample_db and usr = bob and tm = "clock_at 1060000" and e = sample_env
        and out = "[]" and stamp = 1060001, OF ids sb, THEN conjunct2, THEN conjunct1]
      fb nb lb
    by (simp add: sample_server_def) (simp add: sample_db_def alice_def bob_def clock_at_def)
  have la: "5 \<le> loginAttempts alice" "lastFailedLogin alice = Some 1000000"
    by (simp_all add: alice_def)
  have ca: "clock_at 1060000 0 - 1000000 < 15 * 60 * 1000"
    by (simp add: clock_at_def)
  have three: "login sample_env sample_server (clock_at 1060000)
        \<lparr>lb_email = ''a@b.com'', lb_password = ''Wrong999''\<rparr> =
       (Response 429 (Failure ''Account locked. Try again in 14 minutes.'' ''ACCOUNT_LOCKED''),
        sample_server)"
    using invalid_credentials_cases
      [where req = "\<lparr>lb_email = ''a@b.com'', lb_password = ''Wrong999''\<rparr>"
        and d = sample_db and usr = alice and tm = "clock_at 1060000" and e = sample_env
        and out = "[]" and stamp = 1000000, OF ids sa, THEN conjunct2, THEN conjunct2,
        THEN conjunct1, unfolded locked_text msg14]
      fa la ca
    by (simp add: sample_server_def)
  have four: "login sample_env sample_server (clock_at 1060000)
        \<lparr>lb_email = ''bob@b.com'', lb_password = ''Secret99''\<rparr> =
       (Response 200 (LoggedIn 11 ''bob_77'' ''bob@b.com'' ''user'' []
                        ''jwt.00000000000000000000000b''),
        \<lparr>database = Some \<lparr>users = [alice, bob\<lparr>loginAttempts := 0,
                                                   lastLogin := Some 1060003\<rparr>],
                           books = [dune, emma]\<rparr>,
          console = []\<rparr>)"
    using invalid_credentials_cases
      [where req = "\<lparr>lb_email = ''bob@b.com'', lb_password = ''Secret99''\<rparr>"
        and d = sample_db and usr = bob and tm = "clock_at 1060000" and e = sample_env
        and out = "[]" and stamp = 1060001, OF ids sb, THEN conjunct2, THEN conjunct2,
        THEN conjunct2]
      fb yb lb
    by (simp add: sample_server_def)
      (simp add: sample_db_def sample_env_def alice_def bob_def clock_at_def hex11)
  from ids nobody one fb lb nb two fa la ca three yb four show ?thesis
    by (intro conjI)
qed

subsection \<open>Listings: helper facts\<close>

lemma findOneAndUpdate_none:
  "\<forall>x \<in> set xs. \<not> P x \<Longrightarrow> findOneAndUpdate P f xs = (None, xs)"
  by (induction xs) auto

lemma deleteOne_distinct:
  assumes "distinct (map key xs)" and "x \<in> set xs" and "Q x"
  shows "deleteOne (\<lambda>y. key y = key x \<and> Q y) xs = (1, filter (\<lambda>y. key y \<noteq> key x) xs)"
  using assms(1,2)
proof (induction xs)
  case Nil
  then show ?case by simp
next
  case (Cons a xs)
  show ?case
  proof (cases "key a = key x")
    case True
    with Cons.prems have ax: "a = x"
      by (auto simp: image_iff)
    have "\<forall>y \<in> set xs. key y \<noteq> key x"
      using Cons.prems True by (auto simp: image_iff)
    then have "filter (\<lambda>y. key y \<noteq> key x) xs = xs"
      by (induction xs) auto
    with True ax assms(3) show ?thesis by simp
  next
    case False
    with Cons.prems have "x \<in> set xs" and "distinct (map key xs)" by auto
    with Cons.IH False show ?thesis by simp
  qed
qed

lemma id255: "ObjectId_new ''0000000000000000000000ff'' = Inr 255"
  by code_simp

lemma id254: "ObjectId_new ''0000000000000000000000fe'' = Inr 254"
  by code_simp

lemma id_xyz: "ObjectId_new ''xyz'' = Inl BSONError"
  by (simp add: ObjectId_new_def)

lemma hex255: "toHexString 255 = ''0000000000000000000000ff''"
  by code_simp

lemma hex256: "toHexString 256 = ''000000000000000000000100''"
  by code_simp

lemma sample_book_ids:
  "map (\<lambda>b. toHexString (b_id b)) (books sample_db) =
   [''0000000000000000000000ff'', ''000000000000000000000100'']"
  by (simp add: sample_db_def dune_def emma_def hex255 hex256)

lemma findOne_distinct:
  assumes "distinct (map key xs)" and "x \<in> set xs" and "Q x"
  shows "findOne (\<lambda>y. key y = key x \<and> Q y) xs = Some x"
  using assms(1,2)
proof (induction xs)
  case Nil
  then show ?case by simp
next
  case (Cons a xs)
  show ?case
  proof (cases "key a = key x")
    case True
    with Cons.prems have "a = x"
      by (auto simp: image_iff)
    with assms(3) show ?thesis by simp
  next
    case False
    with Cons.prems have "x \<in> set xs" and "distinct (map key xs)" by auto
    with Cons.IH False show ?thesis by simp
  qed
qed

subsection \<open>C6: likes\<close>

lemma hex257: "toHexString 257 = ''000000000000000000000101''"
  by code_simp

lemma id256: "ObjectId_new ''000000000000000000000100'' = Inr 256"
  by code_simp

lemma id257: "ObjectId_new ''000000000000000000000101'' = Inr 257"
  by code_simp

lemma rd_half: "round_double (1 / 2 + 1) = 1 / 2 + 1"
  by code_simp

lemma inc53: "inc_number (Double 9007199254740992) = Inr (Double 9007199254740992)"
  by code_simp

lemma like_book_hit:
  assumes ids: "distinct (map b_id (books d))"
    and mem: "bk \<in> set (books d)"
    and wf: "ObjectId_new bookId = Inr (b_id bk)"
    and inc: "inc_number (likes bk) = Inr v"
  shows "like_book \<lparr>database = Some d, console = out\<rparr> bookId =
           (Response 200 (BookData Undefined ''Likes updated successfully''),
            \<lparr>database = Some (d\<lparr>books :=
                map (\<lambda>b. if b_id b = b_id bk then b\<lparr>likes := v\<rparr> else b) (books d)\<rparr>),
              console = out\<rparr>)"
proof -
  have "inc_likes bk = Inr (bk\<lparr>likes := v\<rparr>)"
    using inc by (simp add: inc_likes_def)
  with ids mem have
    "findOneAndApply (\<lambda>b. b_id b = b_id bk) inc_likes (books d) =
     Inr (Some (bk\<lparr>likes := v\<rparr>),
          map (\<lambda>b. if b_id b = b_id bk then b\<lparr>likes := v\<rparr> else b) (books d))"
    by (rule findOneAndApply_distinct [where g = "\<lambda>b. b\<lparr>likes := v\<rparr>"])
  with wf show ?thesis
    by (simp add: like_book_def getDb_def dot_value_def)
qed

lemma like_book_miss:
  assumes "\<forall>b \<in> set (books d). ObjectId_new bookId \<noteq> Inr (b_id b)"
  shows "like_book \<lparr>database = Some d, console = out\<rparr> bookId =
           (Response 500 (Failure ''Internal server error'' ''SERVER_ERROR''),
            \<lparr>database = Some d, console = out @ [''Error updating likes:'']\<rparr>)"
proof (cases "ObjectId_new bookId")
  case (Inl err)
  then show ?thesis
    by (simp add: like_book_def getDb_def server_error_def log_error_def)
next
  case (Inr bid)
  with assms have "\<forall>b \<in> set (books d). \<not> b_id b = bid"
    by auto
  then have "findOneAndApply (\<lambda>b. b_id b = bid) inc_likes (books d) = Inr (None, books d)"
    by (rule findOneAndApply_none)
  with Inr show ?thesis
    by (simp add: like_book_def getDb_def dot_value_def server_error_def log_error_def)
qed

text \<open>
  A like does not always add 1, and an id that no listing has is not answered 404. The
  listing \<open>tome\<close> holds the double 2^53 as its counter: the like is answered 200 and the
  stored counter is what it was, the double nearest to 2^53 + 1 being 2^53. A well-formed
  id that no listing has is answered 500: \<^verbatim>\<open>findOneAndUpdate\<close> answers \<^verbatim>\<open>null\<close> and the
  read of \<^verbatim>\<open>result.value\<close> throws. So is a string that is not an object id:
  \<^verbatim>\<open>new ObjectId\<close> throws.
\<close>

theorem like_counterexample:
  "database tome_server = Some \<lparr>users = [alice, bob], books = [tome]\<rparr>
   \<and> toHexString (b_id tome) = ''000000000000000000000101''
   \<and> likes tome = Double 9007199254740992
   \<and> like_book tome_server ''000000000000000000000101'' =
       (Response 200 (BookData Undefined ''Likes updated successfully''), tome_server)
   \<and> ''0000000000000000000000fe'' \<notin> set (map (\<lambda>b. toHexString (b_id b)) (books sample_db))
   \<and> like_book sample_server ''0000000000000000000000fe'' =
       (Response 500 (Failure ''Internal server error'' ''SERVER_ERROR''),
        \<lparr>database = Some sample_db, console = [''Error updating likes:'']\<rparr>)
   \<and> status (fst (like_book sample_server ''0000000000000000000000fe'')) \<noteq> 404
   \<and> ''xyz'' \<notin> set (map (\<lambda>b. toHexString (b_id b)) (books sample_db))
   \<and> like_book sample_server ''xyz'' =
       (Response 500 (Failure ''Internal server error'' ''SERVER_ERROR''),
        \<lparr>database = Some sample_db, console = [''Error updating likes:'']\<rparr>)
   \<and> status (fst (like_book sample_server ''xyz'')) \<noteq> 404"
proof -
  have hex: "toHexString (b_id tome) = ''000000000000000000000101''"
    using hex257 by (simp add: tome_def)
  have t: "like_book tome_server ''000000000000000000000101'' =
       (Response 200 (BookData Undefined ''Likes updated successfully''), tome_server)"
    using id257 inc53
    by (simp add: like_book_def getDb_def tome_server_def tome_def inc_likes_def dot_value_def)
  have fe: "like_book sample_server ''0000000000000000000000fe'' =
       (Response 500 (Failure ''Internal server error'' ''SERVER_ERROR''),
        \<lparr>database = Some sample_db, console = [''Error updating likes:'']\<rparr>)"
    using like_book_miss [where d = sample_db and bookId = "''0000000000000000000000fe''"
        and out = "[]"] id254
    by (simp add: sample_server_def) (simp add: sample_db_def dune_def emma_def)
  have xyz: "like_book sample_server ''xyz'' =
       (Response 500 (Failure ''Internal server error'' ''SERVER_ERROR''),
        \<lparr>database = Some sample_db, console = [''Error updating likes:'']\<rparr>)"
    using like_book_miss [where d = sample_db and bookId = "''xyz''" and out = "[]"] id_xyz
    by (simp add: sample_server_def)
  show ?thesis
    using hex t fe xyz sample_book_ids
    by (simp add: tome_server_def tome_def)
qed

text \<open>
  C6, amended. The like handler takes no caller and checks no owner. Let the path id
  denote the id of a stored listing. If the listing's counter is a 32-bit integer, a
  64-bit integer below 2^63 - 1, or a double whose successor is a double again (every
  integer of magnitude below 2^53 is one), the stored counter grows by exactly 1 (a
  32-bit counter at 2^31 - 1 becoming the 64-bit 2^31), no other field of the listing and
  no other listing changes, and the answer is 200 without the listing. If the path id denotes the id of no stored
  listing, no listing changes; the handler's answer there is its 500, with a line on the
  console.
\<close>

theorem like_increments:
  assumes ids: "distinct (map b_id (books d))"
  shows "(bk \<in> set (books d) \<and> ObjectId_new bookId = Inr (b_id bk)
          \<and> likes bk = Int32 n \<and> n + 1 < 2 ^ 31 \<longrightarrow>
            like_book \<lparr>database = Some d, console = out\<rparr> bookId =
              (Response 200 (BookData Undefined ''Likes updated successfully''),
               \<lparr>database = Some (d\<lparr>books :=
                   map (\<lambda>b. if b_id b = b_id bk then b\<lparr>likes := Int32 (n + 1)\<rparr> else b)
                     (books d)\<rparr>),
                 console = out\<rparr>))
       \<and> (bk \<in> set (books d) \<and> ObjectId_new bookId = Inr (b_id bk)
          \<and> likes bk = Int32 n \<and> 2 ^ 31 \<le> n + 1 \<longrightarrow>
            like_book \<lparr>database = Some d, console = out\<rparr> bookId =
              (Response 200 (BookData Undefined ''Likes updated successfully''),
               \<lparr>database = Some (d\<lparr>books :=
                   map (\<lambda>b. if b_id b = b_id bk then b\<lparr>likes := Int64 (n + 1)\<rparr> else b)
                     (books d)\<rparr>),
                 console = out\<rparr>))
       \<and> (bk \<in> set (books d) \<and> ObjectId_new bookId = Inr (b_id bk)
          \<and> likes bk = Int64 n \<and> n + 1 < 2 ^ 63 \<longrightarrow>
            like_book \<lparr>database = Some d, console = out\<rparr> bookId =
              (Response 200 (BookData Undefined ''Likes updated successfully''),
               \<lparr>database = Some (d\<lparr>books :=
                   map (\<lambda>b. if b_id b = b_id bk then b\<lparr>likes := Int64 (n + 1)\<rparr> else b)
                     (books d)\<rparr>),
                 console = out\<rparr>))
       \<and> (bk \<in> set (books d) \<and> ObjectId_new bookId = Inr (b_id bk)
          \<and> likes bk = Double (of_int n) \<and> \<bar>n\<bar> < 2 ^ 53 \<longrightarrow>
            like_book \<lparr>database = Some d, console = out\<rparr> bookId =
              (Response 200 (BookData Undefined ''Likes updated successfully''),
               \<lparr>database = Some (d\<lparr>books :=
                   map (\<lambda>b. if b_id b = b_id bk then b\<lparr>likes := Double (of_int (n + 1))\<rparr> else b)
                     (books d)\<rparr>),
                 console = out\<rparr>))
       \<and> (bk \<in> set (books d) \<and> ObjectId_new bookId = Inr (b_id bk)
          \<and> likes bk = Double x \<and> round_double (x + 1) = x + 1 \<longrightarrow>
            like_book \<lparr>database = Some d, console = out\<rparr> bookId =
              (Response 200 (BookData Undefined ''Likes updated successfully''),
               \<lparr>database = Some (d\<lparr>books :=
                   map (\<lambda>b. if b_id b = b_id bk then b\<lparr>likes := Double (x + 1)\<rparr> else b)
                     (books d)\<rparr>),
                 console = out\<rparr>))
       \<and> ((\<forall>b \<in> set (books d). ObjectId_new bookId \<noteq> Inr (b_id b)) \<longrightarrow>
            like_book \<lparr>database = Some d, console = out\<rparr> bookId =
              (Response 500 (Failure ''Internal server error'' ''SERVER_ERROR''),
               \<lparr>database = Some d, console = out @ [''Error updating likes:'']\<rparr>))"
    (is "(?h1 \<longrightarrow> ?c1) \<and> (?h2 \<longrightarrow> ?c2) \<and> (?h3 \<longrightarrow> ?c3) \<and> (?h4 \<longrightarrow> ?c4) \<and> (?h6 \<longrightarrow> ?c6)
         \<and> (?h5 \<longrightarrow> ?c5)")
proof -
  have one: "?h1 \<longrightarrow> ?c1"
  proof
    assume h: ?h1
    then have "inc_number (likes bk) = Inr (Int32 (n + 1))"
      by (simp add: inc_number_def)
    with ids h show ?c1
      by (intro like_book_hit) simp_all
  qed
  have two: "?h2 \<longrightarrow> ?c2"
  proof
    assume h: ?h2
    then have "inc_number (likes bk) = Inr (Int64 (n + 1))"
      by (simp add: inc_number_def)
    with ids h show ?c2
      by (intro like_book_hit) simp_all
  qed
  have three: "?h3 \<longrightarrow> ?c3"
  proof
    assume h: ?h3
    then have "inc_number (likes bk) = Inr (Int64 (n + 1))"
      by (simp add: inc_number_def)
    with ids h show ?c3
      by (intro like_book_hit) simp_all
  qed
  have four: "?h4 \<longrightarrow> ?c4"
  proof
    assume h: ?h4
    then have "\<bar>n\<bar> < 2 ^ 53"
      by blast
    then have "\<bar>n + 1\<bar> \<le> 2 ^ 53"
      by arith
    then have "round_double (of_int (n + 1)) = of_int (n + 1)"
      by (rule round_double_int)
    moreover have "(of_int n + 1 :: rat) = of_int (n + 1)"
      by simp
    ultimately have "inc_number (likes bk) = Inr (Double (of_int (n + 1)))"
      using h by (simp only: inc_number_def number.case)
    with ids h show ?c4
      by (intro like_book_hit) simp_all
  qed
  have six: "?h6 \<longrightarrow> ?c6"
  proof
    assume h: ?h6
    then have "inc_number (likes bk) = Inr (Double (x + 1))"
      by (simp add: inc_number_def)
    with ids h show ?c6
      by (intro like_book_hit) simp_all
  qed
  have five: "?h5 \<longrightarrow> ?c5"
    by (intro impI like_book_miss)
  from one two three four six five show ?thesis by blast
qed

theorem like_increments_witness:
  "distinct (map b_id (books sample_db))
   \<and> dune \<in> set (books sample_db)
   \<and> ObjectId_new ''0000000000000000000000ff'' = Inr (b_id dune)
   \<and> likes dune = Int32 3
   \<and> like_book \<lparr>database = Some \<lparr>users = [alice, bob], books = [dune, emma]\<rparr>, console = []\<rparr>
        ''0000000000000000000000ff'' =
       (Response 200 (BookData Undefined ''Likes updated successfully''),
        \<lparr>database = Some \<lparr>users = [alice, bob], books = [dune\<lparr>likes := Int32 4\<rparr>, emma]\<rparr>, console = []\<rparr>)
   \<and> like_book \<lparr>database = Some \<lparr>users = [alice, bob], books = [dune\<lparr>likes := Int32 2147483647\<rparr>, emma]\<rparr>, console = []\<rparr>
        ''0000000000000000000000ff'' =
       (Response 200 (BookData Undefined ''Likes updated successfully''),
        \<lparr>database = Some \<lparr>users = [alice, bob], books = [dune\<lparr>likes := Int64 2147483648\<rparr>, emma]\<rparr>, console = []\<rparr>)
   \<and> like_book \<lparr>database = Some \<lparr>users = [alice, bob], books = [dune, emma\<lparr>likes := Int64 9223372036854775806\<rparr>]\<rparr>, console = []\<rparr>
        ''000000000000000000000100'' =
       (Response 200 (BookData Undefined ''Likes updated successfully''),
        \<lparr>database = Some \<lparr>users = [alice, bob], books = [dune, emma\<lparr>likes := Int64 9223372036854775807\<rparr>]\<rparr>, console = []\<rparr>)
   \<and> like_book \<lparr>database = Some \<lparr>users = [alice, bob], books = [dune\<lparr>likes := Double 9007199254740991\<rparr>, emma]\<rparr>, console = []\<rparr>
        ''0000000000000000000000ff'' =
       (Response 200 (BookData Undefined ''Likes updated successfully''),
        \<lparr>database = Some \<lparr>users = [alice, bob], books = [dune\<lparr>likes := Double 9007199254740992\<rparr>, emma]\<rparr>, console = []\<rparr>)
   \<and> like_book \<lparr>database = Some \<lparr>users = [alice, bob], books = [dune\<lparr>likes := Double (1 / 2)\<rparr>, emma]\<rparr>, console = []\<rparr>
        ''0000000000000000000000ff'' =
       (Response 200 (BookData Undefined ''Likes updated successfully''),
        \<lparr>database = Some \<lparr>users = [alice, bob], books = [dune\<lparr>likes := Double (3 / 2)\<rparr>, emma]\<rparr>, console = []\<rparr>)
   \<and> ObjectId_new ''0000000000000000000000fe'' = Inr 254
   \<and> 254 \<notin> set (map b_id (books sample_db))
   \<and> like_book sample_server ''0000000000000000000000fe'' =
       (Response 500 (Failure ''Internal server error'' ''SERVER_ERROR''),
        \<lparr>database = Some sample_db, console = [''Error updating likes:'']\<rparr>)"
proof -
  have w1: "like_book \<lparr>database = Some \<lparr>users = [alice, bob], books = [dune, emma]\<rparr>, console = []\<rparr>
        ''0000000000000000000000ff'' =
       (Response 200 (BookData Undefined ''Likes updated successfully''),
        \<lparr>database = Some \<lparr>users = [alice, bob], books = [dune\<lparr>likes := Int32 4\<rparr>, emma]\<rparr>, console = []\<rparr>)"
    using like_increments [where d = "\<lparr>users = [alice, bob], books = [dune, emma]\<rparr>"
        and bk = "dune" and bookId = "''0000000000000000000000ff''" and n = 3 and out = "[]", THEN conjunct1]
      id255
    by (simp add: dune_def emma_def)
  have w2: "like_book \<lparr>database = Some \<lparr>users = [alice, bob], books = [dune\<lparr>likes := Int32 2147483647\<rparr>, emma]\<rparr>, console = []\<rparr>
        ''0000000000000000000000ff'' =
       (Response 200 (BookData Undefined ''Likes updated successfully''),
        \<lparr>database = Some \<lparr>users = [alice, bob], books = [dune\<lparr>likes := Int64 2147483648\<rparr>, emma]\<rparr>, console = []\<rparr>)"
    using like_increments [where d = "\<lparr>users = [alice, bob], books = [dune\<lparr>likes := Int32 2147483647\<rparr>, emma]\<rparr>"
        and bk = "dune\<lparr>likes := Int32 2147483647\<rparr>" and bookId = "''0000000000000000000000ff''" and n = 2147483647 and out = "[]", THEN conjunct2, THEN conjunct1]
      id255
    by (simp add: dune_def emma_def)
  have w3: "like_book \<lparr>database = Some \<lparr>users = [alice, bob], books = [dune, emma\<lparr>likes := Int64 9223372036854775806\<rparr>]\<rparr>, console = []\<rparr>
        ''000000000000000000000100'' =
       (Response 200 (BookData Undefined ''Likes updated successfully''),
        \<lparr>database = Some \<lparr>users = [alice, bob], books = [dune, emma\<lparr>likes := Int64 9223372036854775807\<rparr>]\<rparr>, console = []\<rparr>)"
    using like_increments [where d = "\<lparr>users = [alice, bob], books = [dune, emma\<lparr>likes := Int64 9223372036854775806\<rparr>]\<rparr>"
        and bk = "emma\<lparr>likes := Int64 9223372036854775806\<rparr>" and bookId = "''000000000000000000000100''" and n = 9223372036854775806 and out = "[]", THEN conjunct2, THEN conjunct2, THEN conjunct1]
      id256
    by (simp add: dune_def emma_def)
  have w4: "like_book \<lparr>database = Some \<lparr>users = [alice, bob], books = [dune\<lparr>likes := Double 9007199254740991\<rparr>, emma]\<rparr>, console = []\<rparr>
        ''0000000000000000000000ff'' =
       (Response 200 (BookData Undefined ''Likes updated successfully''),
        \<lparr>database = Some \<lparr>users = [alice, bob], books = [dune\<lparr>likes := Double 9007199254740992\<rparr>, emma]\<rparr>, console = []\<rparr>)"
    using like_increments [where d = "\<lparr>users = [alice, bob], books = [dune\<lparr>likes := Double 9007199254740991\<rparr>, emma]\<rparr>"
        and bk = "dune\<lparr>likes := Double 9007199254740991\<rparr>" and bookId = "''0000000000000000000000ff''" and n = 9007199254740991 and out = "[]", THEN conjunct2, THEN conjunct2, THEN conjunct2, THEN conjunct1]
      id255
    by (simp add: dune_def emma_def)
  have w6: "like_book \<lparr>database = Some \<lparr>users = [alice, bob], books = [dune\<lparr>likes := Double (1 / 2)\<rparr>, emma]\<rparr>, console = []\<rparr>
        ''0000000000000000000000ff'' =
       (Response 200 (BookData Undefined ''Likes updated successfully''),
        \<lparr>database = Some \<lparr>users = [alice, bob], books = [dune\<lparr>likes := Double (3 / 2)\<rparr>, emma]\<rparr>, console = []\<rparr>)"
    using like_increments [where d = "\<lparr>users = [alice, bob], books = [dune\<lparr>likes := Double (1 / 2)\<rparr>, emma]\<rparr>"
        and bk = "dune\<lparr>likes := Double (1 / 2)\<rparr>" and bookId = "''0000000000000000000000ff''"
        and x = "1 / 2" and out = "[]", THEN conjunct2, THEN conjunct2, THEN conjunct2,
        THEN conjunct2, THEN conjunct1]
      id255 rd_half
    by (simp add: dune_def emma_def)
  have w5: "like_book sample_server ''0000000000000000000000fe'' =
       (Response 500 (Failure ''Internal server error'' ''SERVER_ERROR''),
        \<lparr>database = Some sample_db, console = [''Error updating likes:'']\<rparr>)"
    using like_increments [where d = sample_db and bookId = "''0000000000000000000000fe''" and out = "[]",
        THEN conjunct2, THEN conjunct2, THEN conjunct2, THEN conjunct2, THEN conjunct2] id254
    by (simp add: sample_server_def) (simp add: sample_db_def dune_def emma_def)
  have pre: "distinct (map b_id (books sample_db)) \<and> dune \<in> set (books sample_db)
      \<and> ObjectId_new ''0000000000000000000000ff'' = Inr (b_id dune) \<and> likes dune = Int32 3
      \<and> ObjectId_new ''0000000000000000000000fe'' = Inr 254 \<and> 254 \<notin> set (map b_id (books sample_db))"
    using id255 id254 by (simp add: sample_db_def dune_def emma_def)
  from pre w1 w2 w3 w4 w6 w5 show ?thesis
    by (simp add: sample_server_def sample_db_def)
qed

subsection \<open>C4: update and delete by someone who does not own the listing\<close>

text \<open>
  An update of a listing that belongs to someone else is answered 500, not 404:
  \<^verbatim>\<open>findOneAndUpdate\<close> answers \<^verbatim>\<open>null\<close> and the read of \<^verbatim>\<open>result.value\<close> throws before
  the comparison that would answer 404. So is the update of a listing that does not
  exist. An update or delete whose path carries a string that is not an object id is
  answered 500 as well, although no listing has that id. In each case nothing is stored
  but a line on the console.
\<close>

theorem owner_routes_counterexample:
  "dune \<in> set (books sample_db)
   \<and> toHexString (b_id dune) = ''0000000000000000000000ff''
   \<and> userId dune \<noteq> u_id bob
   \<and> update_book sample_server bob ''0000000000000000000000ff'' [Title ''Mine''] =
       (Response 500 (Failure ''Internal server error'' ''SERVER_ERROR''),
        \<lparr>database = Some sample_db, console = [''Error updating book:'']\<rparr>)
   \<and> status (fst (update_book sample_server bob ''0000000000000000000000ff'' [Title ''Mine'']))
       \<noteq> 404
   \<and> ''0000000000000000000000fe'' \<notin> set (map (\<lambda>b. toHexString (b_id b)) (books sample_db))
   \<and> update_book sample_server bob ''0000000000000000000000fe'' [Title ''Mine''] =
       (Response 500 (Failure ''Internal server error'' ''SERVER_ERROR''),
        \<lparr>database = Some sample_db, console = [''Error updating book:'']\<rparr>)
   \<and> ''xyz'' \<notin> set (map (\<lambda>b. toHexString (b_id b)) (books sample_db))
   \<and> update_book sample_server alice ''xyz'' [Title ''Dune II''] =
       (Response 500 (Failure ''Internal server error'' ''SERVER_ERROR''),
        \<lparr>database = Some sample_db, console = [''Error updating book:'']\<rparr>)
   \<and> delete_book sample_env sample_server alice ''xyz'' =
       (Response 500 (Failure ''Internal server error'' ''SERVER_ERROR''),
        \<lparr>database = Some sample_db, console = [''Error deleting book:'']\<rparr>)
   \<and> status (fst (delete_book sample_env sample_server alice ''xyz'')) \<noteq> 404"
proof -
  have ff: "update_book sample_server bob ''0000000000000000000000ff'' [Title ''Mine''] =
       (Response 500 (Failure ''Internal server error'' ''SERVER_ERROR''),
        \<lparr>database = Some sample_db, console = [''Error updating book:'']\<rparr>)"
    using id255
    by (simp add: update_book_def getDb_def sample_server_def sample_db_def dune_def emma_def
        bob_def dot_value_def server_error_def log_error_def)
  have fe: "update_book sample_server bob ''0000000000000000000000fe'' [Title ''Mine''] =
       (Response 500 (Failure ''Internal server error'' ''SERVER_ERROR''),
        \<lparr>database = Some sample_db, console = [''Error updating book:'']\<rparr>)"
    using id254
    by (simp add: update_book_def getDb_def sample_server_def sample_db_def dune_def emma_def
        bob_def dot_value_def server_error_def log_error_def)
  have xu: "update_book sample_server alice ''xyz'' [Title ''Dune II''] =
       (Response 500 (Failure ''Internal server error'' ''SERVER_ERROR''),
        \<lparr>database = Some sample_db, console = [''Error updating book:'']\<rparr>)"
    using id_xyz
    by (simp add: update_book_def getDb_def sample_server_def server_error_def log_error_def)
  have xd: "delete_book sample_env sample_server alice ''xyz'' =
       (Response 500 (Failure ''Internal server error'' ''SERVER_ERROR''),
        \<lparr>database = Some sample_db, console = [''Error deleting book:'']\<rparr>)"
    using id_xyz
    by (simp add: delete_book_def getDb_def sample_server_def server_error_def log_error_def)
  have pre: "dune \<in> set (books sample_db)
      \<and> toHexString (b_id dune) = ''0000000000000000000000ff''
      \<and> userId dune \<noteq> u_id bob"
    using hex255 by (simp add: sample_db_def dune_def bob_def)
  show ?thesis
    using pre ff fe xu xd sample_book_ids by simp
qed

text \<open>
  C4, amended. Take an update or a delete by a caller who owns no listing with the id
  that the path denotes: the listing does not exist, or belongs to someone else, or the
  path is not an object id at all. The answer is never 403; it is the same answer,
  message included, whether the listing is absent or owned by another user; and no
  stored listing is modified or deleted. For a delete with a well-formed path id the
  answer is 404 with code \<^verbatim>\<open>NOT_FOUND\<close>; for a delete with any other path it is 500. The
  update handler does not reach the 404 it attempts: its answer is 500, with a line on
  the console.
\<close>

theorem ownership_opacity:
  assumes foreign:
    "\<forall>b \<in> set (books d). ObjectId_new bookId = Inr (b_id b) \<longrightarrow> userId b \<noteq> u_id usr"
  shows "(ObjectId_new bookId = Inr bid \<longrightarrow>
            delete_book e \<lparr>database = Some d, console = out\<rparr> usr bookId =
              (Response 404 (Failure ''Book not found or access denied'' ''NOT_FOUND''),
               \<lparr>database = Some d, console = out\<rparr>))
       \<and> (ObjectId_new bookId = Inl err \<longrightarrow>
            delete_book e \<lparr>database = Some d, console = out\<rparr> usr bookId =
              (Response 500 (Failure ''Internal server error'' ''SERVER_ERROR''),
               \<lparr>database = Some d, console = out @ [''Error deleting book:'']\<rparr>))
       \<and> update_book \<lparr>database = Some d, console = out\<rparr> usr bookId updateData =
           (Response 500 (Failure ''Internal server error'' ''SERVER_ERROR''),
            \<lparr>database = Some d, console = out @ [''Error updating book:'']\<rparr>)
       \<and> status (fst (delete_book e \<lparr>database = Some d, console = out\<rparr> usr bookId)) \<noteq> 403
       \<and> status (fst (update_book \<lparr>database = Some d, console = out\<rparr> usr bookId updateData))
           \<noteq> 403"
    (is "(?h1 \<longrightarrow> ?c1) \<and> (?h2 \<longrightarrow> ?c2) \<and> ?c3 \<and> ?c4 \<and> ?c5")
proof -
  have none: "\<forall>b \<in> set (books d). \<not> (b_id b = w \<and> userId b = u_id usr)"
    if "ObjectId_new bookId = Inr w" for w
    using foreign that by auto
  have one: "?h1 \<longrightarrow> ?c1"
  proof
    assume wf: ?h1
    from none [OF wf]
    have "findOne (\<lambda>b. b_id b = bid \<and> userId b = u_id usr) (books d) = None"
      by (simp add: findOne_None_iff)
    with wf show ?c1
      by (simp add: delete_book_def getDb_def not_found_def)
  qed
  have two: "?h2 \<longrightarrow> ?c2"
    by (simp add: delete_book_def getDb_def server_error_def log_error_def)
  have three: ?c3
  proof (cases "ObjectId_new bookId")
    case (Inl x)
    then show ?thesis
      by (simp add: update_book_def getDb_def server_error_def log_error_def)
  next
    case (Inr w)
    from none [OF Inr]
    have "findOneAndUpdate (\<lambda>b. b_id b = w \<and> userId b = u_id usr)
            (apply_set updateData) (books d) = (None, books d)"
      by (rule findOneAndUpdate_none)
    with Inr show ?thesis
      by (simp add: update_book_def getDb_def dot_value_def server_error_def log_error_def)
  qed
  have four: ?c4
  proof (cases "ObjectId_new bookId")
    case (Inl x)
    then show ?thesis
      by (simp add: delete_book_def getDb_def server_error_def log_error_def)
  next
    case (Inr w)
    from none [OF Inr]
    have "findOne (\<lambda>b. b_id b = w \<and> userId b = u_id usr) (books d) = None"
      by (simp add: findOne_None_iff)
    with Inr show ?thesis
      by (simp add: delete_book_def getDb_def not_found_def)
  qed
  have five: ?c5
    using three by simp
  from one two three four five show ?thesis by blast
qed

theorem ownership_opacity_witness:
  "dune \<in> set (books sample_db)
   \<and> ObjectId_new ''0000000000000000000000ff'' = Inr (b_id dune)
   \<and> userId dune \<noteq> u_id bob
   \<and> delete_book sample_env sample_server bob ''0000000000000000000000ff'' =
       (Response 404 (Failure ''Book not found or access denied'' ''NOT_FOUND''), sample_server)
   \<and> update_book sample_server bob ''0000000000000000000000ff'' [Title ''Mine''] =
       (Response 500 (Failure ''Internal server error'' ''SERVER_ERROR''),
        \<lparr>database = Some sample_db, console = [''Error updating book:'']\<rparr>)
   \<and> ObjectId_new ''0000000000000000000000fe'' = Inr 254
   \<and> 254 \<notin> set (map b_id (books sample_db))
   \<and> delete_book sample_env sample_server bob ''0000000000000000000000fe'' =
       (Response 404 (Failure ''Book not found or access denied'' ''NOT_FOUND''), sample_server)
   \<and> update_book sample_server bob ''0000000000000000000000fe'' [Title ''Mine''] =
       (Response 500 (Failure ''Internal server error'' ''SERVER_ERROR''),
        \<lparr>database = Some sample_db, console = [''Error updating book:'']\<rparr>)
   \<and> ObjectId_new ''xyz'' = Inl BSONError
   \<and> delete_book sample_env sample_server bob ''xyz'' =
       (Response 500 (Failure ''Internal server error'' ''SERVER_ERROR''),
        \<lparr>database = Some sample_db, console = [''Error deleting book:'']\<rparr>)"
proof -
  have pre: "dune \<in> set (books sample_db)
      \<and> ObjectId_new ''0000000000000000000000ff'' = Inr (b_id dune)
      \<and> userId dune \<noteq> u_id bob
      \<and> ObjectId_new ''0000000000000000000000fe'' = Inr 254
      \<and> 254 \<notin> set (map b_id (books sample_db))
      \<and> ObjectId_new ''xyz'' = Inl BSONError"
    using id255 id254 id_xyz by (simp add: sample_db_def dune_def emma_def bob_def)
  have f1: "\<forall>b \<in> set (books sample_db).
      ObjectId_new ''0000000000000000000000ff'' = Inr (b_id b) \<longrightarrow> userId b \<noteq> u_id bob"
    using id255 by (simp add: sample_db_def dune_def emma_def bob_def)
  have f2: "\<forall>b \<in> set (books sample_db).
      ObjectId_new ''0000000000000000000000fe'' = Inr (b_id b) \<longrightarrow> userId b \<noteq> u_id bob"
    using id254 by (simp add: sample_db_def dune_def emma_def bob_def)
  have f3: "\<forall>b \<in> set (books sample_db).
      ObjectId_new ''xyz'' = Inr (b_id b) \<longrightarrow> userId b \<noteq> u_id bob"
    using id_xyz by simp
  note a = ownership_opacity [where d = sample_db and usr = bob and out = "[]"
      and e = sample_env and updateData = "[Title ''Mine'']"
      and bookId = "''0000000000000000000000ff''" and bid = 255, OF f1]
  note b = ownership_opacity [where d = sample_db and usr = bob and out = "[]"
      and e = sample_env and updateData = "[Title ''Mine'']"
      and bookId = "''0000000000000000000000fe''" and bid = 254, OF f2]
  note c = ownership_opacity [where d = sample_db and usr = bob and out = "[]"
      and e = sample_env and updateData = "[Title ''Mine'']"
      and bookId = "''xyz''" and err = BSONError, OF f3]
  have d1: "delete_book sample_env sample_server bob ''0000000000000000000000ff'' =
       (Response 404 (Failure ''Book not found or access denied'' ''NOT_FOUND''), sample_server)"
    using a [THEN conjunct1] id255 by (simp add: sample_server_def)
  have u1: "update_book sample_server bob ''0000000000000000000000ff'' [Title ''Mine''] =
       (Response 500 (Failure ''Internal server error'' ''SERVER_ERROR''),
        \<lparr>database = Some sample_db, console = [''Error updating book:'']\<rparr>)"
    using a [THEN conjunct2, THEN conjunct2, THEN conjunct1] by (simp add: sample_server_def)
  have d2: "delete_book sample_env sample_server bob ''0000000000000000000000fe'' =
       (Response 404 (Failure ''Book not found or access denied'' ''NOT_FOUND''), sample_server)"
    using b [THEN conjunct1] id254 by (simp add: sample_server_def)
  have u2: "update_book sample_server bob ''0000000000000000000000fe'' [Title ''Mine''] =
       (Response 500 (Failure ''Internal server error'' ''SERVER_ERROR''),
        \<lparr>database = Some sample_db, console = [''Error updating book:'']\<rparr>)"
    using b [THEN conjunct2, THEN conjunct2, THEN conjunct1] by (simp add: sample_server_def)
  have d3: "delete_book sample_env sample_server bob ''xyz'' =
       (Response 500 (Failure ''Internal server error'' ''SERVER_ERROR''),
        \<lparr>database = Some sample_db, console = [''Error deleting book:'']\<rparr>)"
    using c [THEN conjunct2, THEN conjunct1] id_xyz by (simp add: sample_server_def)
  from pre d1 u1 d2 u2 d3 show ?thesis
    by simp
qed

subsection \<open>C8: deleting a listing when the image host fails\<close>

text \<open>
  C8. When the owner deletes a listing, the answer is 200 and the listing is gone from
  the store whatever \<^verbatim>\<open>cloudinary.uploader.destroy\<close> does: a rejection only adds a
  line to the console. Two runs that differ in nothing but the image host give the same
  answer and the same database.
\<close>

theorem delete_ignores_image_failure:
  assumes wf: "ObjectId_new bookId = Inr bid"
    and ids: "distinct (map b_id (books d))"
    and mem: "bk \<in> set (books d)"
    and own: "b_id bk = bid \<and> userId bk = u_id usr"
  shows "delete_book e \<lparr>database = Some d, console = out\<rparr> usr bookId =
           (Response 200 (Message ''Book and associated image deleted successfully''),
            \<lparr>database = Some (d\<lparr>books := filter (\<lambda>b. b_id b \<noteq> bid) (books d)\<rparr>),
              console = out @
                (case image' bk of
                   None \<Rightarrow> []
                 | Some img \<Rightarrow>
                     if public_id img \<noteq> [] \<and> \<not> cloudinary_destroy e (public_id img)
                     then [''Error deleting image from Cloudinary:''] else [])\<rparr>)
       \<and> fst (delete_book e' \<lparr>database = Some d, console = out\<rparr> usr bookId) =
         fst (delete_book e \<lparr>database = Some d, console = out\<rparr> usr bookId)
       \<and> database (snd (delete_book e' \<lparr>database = Some d, console = out\<rparr> usr bookId)) =
         database (snd (delete_book e \<lparr>database = Some d, console = out\<rparr> usr bookId))"
proof -
  have del: "deleteOne (\<lambda>b. b_id b = bid \<and> userId b = u_id usr) (books d) =
             (1, filter (\<lambda>b. b_id b \<noteq> bid) (books d))"
    using deleteOne_distinct [where key = b_id and x = bk and xs = "books d"
        and Q = "\<lambda>b. userId b = u_id usr"] ids mem own
    by simp
  have fnd: "findOne (\<lambda>b. b_id b = bid \<and> userId b = u_id usr) (books d) = Some bk"
    using findOne_distinct [where key = b_id and x = bk and xs = "books d"
        and Q = "\<lambda>b. userId b = u_id usr"] ids mem own
    by simp
  have any: "\<And>x. delete_book x \<lparr>database = Some d, console = out\<rparr> usr bookId =
           (Response 200 (Message ''Book and associated image deleted successfully''),
            \<lparr>database = Some (d\<lparr>books := filter (\<lambda>b. b_id b \<noteq> bid) (books d)\<rparr>),
              console = out @
                (case image' bk of
                   None \<Rightarrow> []
                 | Some img \<Rightarrow>
                     if public_id img \<noteq> [] \<and> \<not> cloudinary_destroy x (public_id img)
                     then [''Error deleting image from Cloudinary:''] else [])\<rparr>)"
    using wf del fnd
    by (simp add: delete_book_def getDb_def log_error_def split: option.split)
  show ?thesis
    by (simp add: any)
qed

theorem delete_ignores_image_failure_witness:
  "ObjectId_new ''0000000000000000000000ff'' = Inr 255
   \<and> distinct (map b_id (books sample_db))
   \<and> dune \<in> set (books sample_db)
   \<and> b_id dune = 255 \<and> userId dune = u_id alice
   \<and> \<not> cloudinary_destroy sample_env ''dune_1''
   \<and> delete_book sample_env sample_server alice ''0000000000000000000000ff'' =
       (Response 200 (Message ''Book and associated image deleted successfully''),
        \<lparr>database = Some \<lparr>users = [alice, bob], books = [emma]\<rparr>,
          console = [''Error deleting image from Cloudinary:'']\<rparr>)
   \<and> delete_book (sample_env\<lparr>cloudinary_destroy := \<lambda>pid. True\<rparr>) sample_server alice
         ''0000000000000000000000ff'' =
       (Response 200 (Message ''Book and associated image deleted successfully''),
        \<lparr>database = Some \<lparr>users = [alice, bob], books = [emma]\<rparr>, console = []\<rparr>)"
  using delete_ignores_image_failure [where bookId = "''0000000000000000000000ff''"
      and bid = 255 and d = sample_db and usr = alice and out = "[]" and e = sample_env
      and bk = dune]
    delete_ignores_image_failure [where bookId = "''0000000000000000000000ff''"
      and bid = 255 and d = sample_db and usr = alice and out = "[]"
      and e = "sample_env\<lparr>cloudinary_destroy := \<lambda>pid. True\<rparr>" and bk = dune]
    id255
  by (simp add: sample_db_def sample_server_def sample_env_def dune_def emma_def alice_def)

subsection \<open>C10: deleting an account leaves its listings\<close>

text \<open>
  C10. \<^verbatim>\<open>DELETE /me\<close> for a stored user removes the user record and nothing else: the
  listings collection is the one before, so every listing of that user stays, its owner id
  now the id of no stored user, and the list-all handler still returns it.
\<close>

theorem delete_me_keeps_listings:
  assumes mem: "usr \<in> set (users d)"
    and ids: "distinct (map u_id (users d))"
  shows "delete_me \<lparr>database = Some d, console = out\<rparr> usr =
           (Response 200 (Message ''Account deleted successfully''),
            \<lparr>database = Some (d\<lparr>users := filter (\<lambda>u. u_id u \<noteq> u_id usr) (users d)\<rparr>),
              console = out\<rparr>)
       \<and> books (d\<lparr>users := filter (\<lambda>u. u_id u \<noteq> u_id usr) (users d)\<rparr>) = books d
       \<and> (\<forall>b \<in> set (books d). userId b = u_id usr \<longrightarrow>
            (\<forall>u \<in> set (filter (\<lambda>u. u_id u \<noteq> u_id usr) (users d)). u_id u \<noteq> userId b))
       \<and> get_books (snd (delete_me \<lparr>database = Some d, console = out\<rparr> usr)) =
           (Response 200
              (BooksData (sort_key (\<lambda>b. - createdAt b) (books d))
                 ''Books retrieved successfully''),
            snd (delete_me \<lparr>database = Some d, console = out\<rparr> usr))
       \<and> (\<forall>b \<in> set (books d). userId b = u_id usr \<longrightarrow>
            b \<in> set (sort_key (\<lambda>b. - createdAt b) (books d)))"
proof -
  have del: "deleteOne (\<lambda>u. u_id u = u_id usr \<and> True) (users d) =
             (1, filter (\<lambda>u. u_id u \<noteq> u_id usr) (users d))"
    using ids mem by (intro deleteOne_distinct) auto
  have one: "delete_me \<lparr>database = Some d, console = out\<rparr> usr =
           (Response 200 (Message ''Account deleted successfully''),
            \<lparr>database = Some (d\<lparr>users := filter (\<lambda>u. u_id u \<noteq> u_id usr) (users d)\<rparr>),
              console = out\<rparr>)"
    using del by (simp add: delete_me_def getDb_def)
  show ?thesis
    by (simp add: one get_books_def getDb_def)
qed

theorem delete_me_keeps_listings_witness:
  "alice \<in> set (users sample_db) \<and> distinct (map u_id (users sample_db))
   \<and> delete_me sample_server alice =
       (Response 200 (Message ''Account deleted successfully''),
        \<lparr>database = Some \<lparr>users = [bob], books = [dune, emma]\<rparr>, console = []\<rparr>)
   \<and> userId dune = u_id alice
   \<and> get_books \<lparr>database = Some \<lparr>users = [bob], books = [dune, emma]\<rparr>, console = []\<rparr> =
       (Response 200 (BooksData [emma, dune] ''Books retrieved successfully''),
        \<lparr>database = Some \<lparr>users = [bob], books = [dune, emma]\<rparr>, console = []\<rparr>)"
  using delete_me_keeps_listings [where d = sample_db and usr = alice and out = "[]"]
  by (simp add: sample_db_def sample_server_def alice_def bob_def dune_def emma_def
      get_books_def getDb_def)

subsection \<open>C2: registration and conflicts\<close>

lemma findOne_append:
  "findOne P (xs @ ys) = (case findOne P xs of None \<Rightarrow> findOne P ys | Some x \<Rightarrow> Some x)"
  by (induction xs) auto

lemma findOne_exists: "y \<in> set xs \<Longrightarrow> P y \<Longrightarrow> \<exists>x. findOne P xs = Some x"
  by (induction xs) auto

lemma register_taken:
  assumes "\<exists>u \<in> set (users d). username u = rb_username req \<or> email u = rb_email req"
  shows "register e \<lparr>database = Some d, console = out\<rparr> tm newId req =
         (user_exists, \<lparr>database = Some d, console = out\<rparr>)"
proof -
  from assms obtain x where
    "findOne (\<lambda>u. username u = rb_username req \<or> email u = rb_email req) (users d) = Some x"
    using findOne_exists [where P = "\<lambda>u. username u = rb_username req \<or> email u = rb_email req"]
    by blast
  then show ?thesis
    by (simp add: register_def getDb_def sanitizeInput_def)
qed

lemma register_free:
  assumes "\<not> (\<exists>u \<in> set (users d). username u = rb_username req \<or> email u = rb_email req)"
  shows "register e \<lparr>database = Some d, console = out\<rparr> tm newId req =
         (if newId \<in> set (map u_id (users d))
          then (server_error, \<lparr>database = Some d, console = out\<rparr>)
          else (Response 201
                  (Registered newId (rb_username req) (rb_email req) (tm 0)
                     (generateToken e (tm 1) (toHexString newId))),
                \<lparr>database = Some (d\<lparr>users := users d @
                    [\<lparr>u_id = newId, username = rb_username req, email = rb_email req,
                      password = bcrypt_hash e (rb_password req) (SALT_ROUNDS e),
                      joinDate = tm 0, lastLogin = None, loginAttempts = 0,
                      lastFailedLogin = None, isActive = True, role = ''user'',
                      profile = []\<rparr>]\<rparr>),
                  console = out\<rparr>))"
proof -
  from assms have
    "findOne (\<lambda>u. username u = rb_username req \<or> email u = rb_email req) (users d) = None"
    by (simp add: findOne_None_iff)
  then show ?thesis
    by (simp add: register_def getDb_def sanitizeInput_def insertOne_def Let_def)
qed

lemma hex12: "toHexString 12 = ''00000000000000000000000c''"
  by code_simp

lemma hex13: "toHexString 13 = ''00000000000000000000000d''"
  by code_simp

text \<open>
  C2. For a request that has passed validation, the registration handler answers 409 with
  code \<^verbatim>\<open>USER_EXISTS\<close> exactly when a stored user has the requested username or the
  requested email, and then stores nothing. Otherwise (the driver's new id being unused)
  it appends the account with failed-login counter 0, role \<^verbatim>\<open>user\<close> and, as password,
  what \<^verbatim>\<open>bcrypt.hash\<close> returns for the submitted password at the configured cost, and
  answers 201 with what \<^verbatim>\<open>jwt.sign\<close> returns for the new id's hexadecimal string under the
  configured secret and lifetime. Of two requests that share a username or an email,
  whichever is registered first, the other is answered 409 and stores nothing.
\<close>

theorem register_conflict:
  "(status (fst (register e \<lparr>database = Some d, console = out\<rparr> tm newId req)) = 409 \<longleftrightarrow>
      (\<exists>u \<in> set (users d). username u = rb_username req \<or> email u = rb_email req))
   \<and> ((\<exists>u \<in> set (users d). username u = rb_username req \<or> email u = rb_email req) \<longrightarrow>
        register e \<lparr>database = Some d, console = out\<rparr> tm newId req =
          (Response 409 (Failure ''Username or email already exists'' ''USER_EXISTS''),
           \<lparr>database = Some d, console = out\<rparr>))
   \<and> (\<not> (\<exists>u \<in> set (users d). username u = rb_username req \<or> email u = rb_email req)
        \<and> newId \<notin> set (map u_id (users d)) \<longrightarrow>
        register e \<lparr>database = Some d, console = out\<rparr> tm newId req =
          (Response 201
             (Registered newId (rb_username req) (rb_email req) (tm 0)
                (jwt_sign e (toHexString newId) (JWT_SECRET e) (JWT_EXPIRES_IN e) (tm 1))),
           \<lparr>database = Some (d\<lparr>users := users d @
               [\<lparr>u_id = newId, username = rb_username req, email = rb_email req,
                 password = bcrypt_hash e (rb_password req) (SALT_ROUNDS e),
                 joinDate = tm 0, lastLogin = None, loginAttempts = 0,
                 lastFailedLogin = None, isActive = True, role = ''user'',
                 profile = []\<rparr>]\<rparr>),
             console = out\<rparr>))
   \<and> ((rb_username req = rb_username req' \<or> rb_email req = rb_email req')
        \<and> status (fst (register e \<lparr>database = Some d, console = out\<rparr> tm newId req)) = 201 \<longrightarrow>
        register e (snd (register e \<lparr>database = Some d, console = out\<rparr> tm newId req))
            tm' newId' req' =
          (Response 409 (Failure ''Username or email already exists'' ''USER_EXISTS''),
           snd (register e \<lparr>database = Some d, console = out\<rparr> tm newId req)))"
  (is "?A \<and> ?B \<and> ?C \<and> ?D")
proof (cases "\<exists>u \<in> set (users d). username u = rb_username req \<or> email u = rb_email req")
  case True
  from register_taken [OF True] show ?thesis
    using True by (simp add: user_exists_def)
next
  case False
  note free = register_free [OF False]
  have a: ?A using False by (simp add: free server_error_def)
  have b: ?B using False by simp
  have c: ?C using False by (simp add: free generateToken_def)
  have d: ?D
  proof (intro impI)
    assume h: "(rb_username req = rb_username req' \<or> rb_email req = rb_email req')
        \<and> status (fst (register e \<lparr>database = Some d, console = out\<rparr> tm newId req)) = 201"
    then have fresh: "newId \<notin> set (map u_id (users d))"
      by (auto simp: free server_error_def split: if_splits)
    let ?new = "\<lparr>u_id = newId, username = rb_username req, email = rb_email req,
                 password = bcrypt_hash e (rb_password req) (SALT_ROUNDS e),
                 joinDate = tm 0, lastLogin = None, loginAttempts = 0,
                 lastFailedLogin = None, isActive = True, role = ''user'',
                 profile = []\<rparr>"
    have st: "snd (register e \<lparr>database = Some d, console = out\<rparr> tm newId req) =
              \<lparr>database = Some (d\<lparr>users := users d @ [?new]\<rparr>), console = out\<rparr>"
      using fresh by (simp add: free)
    have "\<exists>u \<in> set (users (d\<lparr>users := users d @ [?new]\<rparr>)).
            username u = rb_username req' \<or> email u = rb_email req'"
      using h by auto
    from register_taken [OF this]
    show "register e (snd (register e \<lparr>database = Some d, console = out\<rparr> tm newId req))
            tm' newId' req' =
          (Response 409 (Failure ''Username or email already exists'' ''USER_EXISTS''),
           snd (register e \<lparr>database = Some d, console = out\<rparr> tm newId req))"
      by (simp add: st user_exists_def)
  qed
  from a b c d show ?thesis by blast
qed

theorem register_conflict_witness:
  "register sample_env sample_server (clock_at 5000) 12
       \<lparr>rb_username = ''alice123'', rb_email = ''new@b.com'', rb_password = ''Abcdef12''\<rparr> =
     (Response 409 (Failure ''Username or email already exists'' ''USER_EXISTS''), sample_server)
   \<and> register sample_env sample_server (clock_at 5000) 12 carol =
     (Response 201 (Registered 12 ''carol_1'' ''c@b.com'' 5000 ''jwt.00000000000000000000000c''),
      \<lparr>database = Some \<lparr>users = [alice, bob,
           \<lparr>u_id = 12, username = ''carol_1'', email = ''c@b.com'', password = ''$2b$Abcdef12'',
            joinDate = 5000, lastLogin = None, loginAttempts = 0, lastFailedLogin = None,
            isActive = True, role = ''user'', profile = []\<rparr>],
         books = [dune, emma]\<rparr>, console = []\<rparr>)
   \<and> rb_email carol = rb_email carla
   \<and> status (fst (register sample_env sample_server (clock_at 5000) 12 carol)) = 201
   \<and> register sample_env (snd (register sample_env sample_server (clock_at 5000) 12 carol))
       (clock_at 6000) 13 carla =
     (Response 409 (Failure ''Username or email already exists'' ''USER_EXISTS''),
      snd (register sample_env sample_server (clock_at 5000) 12 carol))
   \<and> status (fst (register sample_env sample_server (clock_at 5000) 13 carla)) = 201
   \<and> register sample_env (snd (register sample_env sample_server (clock_at 5000) 13 carla))
       (clock_at 6000) 12 carol =
     (Response 409 (Failure ''Username or email already exists'' ''USER_EXISTS''),
      snd (register sample_env sample_server (clock_at 5000) 13 carla))"
proof -
  note one = register_conflict [where e = sample_env and d = sample_db and out = "[]"
      and tm = "clock_at 5000" and newId = 12
      and req = "\<lparr>rb_username = ''alice123'', rb_email = ''new@b.com'',
                  rb_password = ''Abcdef12''\<rparr>"]
  note two = register_conflict [where e = sample_env and d = sample_db and out = "[]"
      and tm = "clock_at 5000" and newId = 12 and req = carol and req' = carla
      and tm' = "clock_at 6000" and newId' = 13]
  note three = register_conflict [where e = sample_env and d = sample_db and out = "[]"
      and tm = "clock_at 5000" and newId = 13 and req = carla and req' = carol
      and tm' = "clock_at 6000" and newId' = 12]
  have free12: "\<not> (\<exists>u \<in> set (users sample_db).
                    username u = rb_username carol \<or> email u = rb_email carol)
                \<and> 12 \<notin> set (map u_id (users sample_db))"
    by (simp add: sample_db_def alice_def bob_def carol_def)
  have free13: "\<not> (\<exists>u \<in> set (users sample_db).
                    username u = rb_username carla \<or> email u = rb_email carla)
                \<and> 13 \<notin> set (map u_id (users sample_db))"
    by (simp add: sample_db_def alice_def bob_def carla_def)
  have taken: "\<exists>u \<in> set (users sample_db). username u = ''alice123'' \<or> email u = ''new@b.com''"
    by (simp add: sample_db_def alice_def)
  have r1: "register sample_env sample_server (clock_at 5000) 12
       \<lparr>rb_username = ''alice123'', rb_email = ''new@b.com'', rb_password = ''Abcdef12''\<rparr> =
     (Response 409 (Failure ''Username or email already exists'' ''USER_EXISTS''), sample_server)"
    using one taken by (simp add: sample_server_def)
  have r2: "register sample_env sample_server (clock_at 5000) 12 carol =
     (Response 201 (Registered 12 ''carol_1'' ''c@b.com'' 5000 ''jwt.00000000000000000000000c''),
      \<lparr>database = Some \<lparr>users = [alice, bob,
           \<lparr>u_id = 12, username = ''carol_1'', email = ''c@b.com'', password = ''$2b$Abcdef12'',
            joinDate = 5000, lastLogin = None, loginAttempts = 0, lastFailedLogin = None,
            isActive = True, role = ''user'', profile = []\<rparr>],
         books = [dune, emma]\<rparr>, console = []\<rparr>)"
    using two free12 hex12
    by (simp add: sample_server_def sample_db_def sample_env_def carol_def clock_at_def
        generateToken_def)
  have s2: "status (fst (register sample_env sample_server (clock_at 5000) 12 carol)) = 201"
    by (simp add: r2)
  have r3: "status (fst (register sample_env sample_server (clock_at 5000) 13 carla)) = 201"
    using three free13 by (simp add: sample_server_def)
  have e: "rb_email carol = rb_email carla"
    by (simp add: carol_def carla_def)
  have o1: "register sample_env (snd (register sample_env sample_server (clock_at 5000) 12 carol))
       (clock_at 6000) 13 carla =
     (Response 409 (Failure ''Username or email already exists'' ''USER_EXISTS''),
      snd (register sample_env sample_server (clock_at 5000) 12 carol))"
    using two s2 e by (simp add: sample_server_def)
  have o2: "register sample_env (snd (register sample_env sample_server (clock_at 5000) 13 carla))
       (clock_at 6000) 12 carol =
     (Response 409 (Failure ''Username or email already exists'' ''USER_EXISTS''),
      snd (register sample_env sample_server (clock_at 5000) 13 carla))"
    using three r3 e by (simp add: sample_server_def)
  from r1 r2 e s2 o1 r3 o2 show ?thesis by blast
qed

subsection \<open>C7: the registration policy\<close>

lemma class_not_terminator:
  "isUpper c \<or> isLower c \<or> isDigit c \<or> isSpecial c \<Longrightarrow> \<not> isLineTerminator c"
  by (auto simp: isUpper_def isLower_def isDigit_def isSpecial_def isLineTerminator_def Let_def)

lemma lookahead_list_ex:
  "list_all (\<lambda>c. \<not> isLineTerminator c) s \<Longrightarrow> lookahead P s = list_ex P s"
  by (induction s) (auto simp: lookahead_def)

lemma matches_password_iff:
  "matches_password p \<longleftrightarrow>
     8 \<le> length p \<and> list_ex isUpper p \<and> list_ex isLower p \<and> list_ex isDigit p
     \<and> list_all (\<lambda>c. isUpper c \<or> isLower c \<or> isDigit c \<or> isSpecial c) p"
proof (cases "list_all (\<lambda>c. isUpper c \<or> isLower c \<or> isDigit c \<or> isSpecial c) p")
  case True
  then have "list_all (\<lambda>c. \<not> isLineTerminator c) p"
    using class_not_terminator by (auto simp: list_all_iff)
  then show ?thesis
    by (auto simp: matches_password_def lookahead_list_ex)
next
  case False
  then show ?thesis by (simp add: matches_password_def)
qed


lemma post_users_invalid:
  "fst (registerSchema e raw) \<noteq> [] \<Longrightarrow>
   post_users e s tm newId raw = (Response 400 (ValidationFailure (fst (registerSchema e raw))), s)"
  by (cases "registerSchema e raw") (simp add: post_users_def)

lemma post_users_valid:
  "fst (registerSchema e raw) = [] \<Longrightarrow>
   post_users e s tm newId raw = register e s tm newId (snd (registerSchema e raw))"
  by (cases "registerSchema e raw") (simp add: post_users_def)

lemma registerSchema_ok_iff:
  "fst (registerSchema e raw) = [] \<longleftrightarrow>
     isLength 3 (Some 30) (trim (toString (r_username raw)))
     \<and> matches_username (trim (toString (r_username raw)))
     \<and> isEmail e (trim (toString (r_email raw)))
     \<and> isLength 8 None (toString (r_password raw))
     \<and> matches_password (toString (r_password raw))"
  by (simp add: registerSchema_def Let_def)

lemma register_status:
  "status (fst (register e s tm newId req)) \<in> {500, 409, 201}"
  by (simp add: register_def server_error_def user_exists_def Let_def
      split: sum.split option.split)

lemmas char_classes =
  isUpper_def isLower_def isDigit_def isSpecial_def isSpace_def isLineTerminator_def

text \<open>
  A password of nine characters with an upper-case letter, a lower-case letter and a digit
  is rejected when it holds a character outside the class of the pattern, here \<^verbatim>\<open>#\<close>:
  the only validator that fails is one of the password's.
\<close>

theorem special_character_password_counterexample:
  "8 \<le> length ''Abcdef12#''
   \<and> list_ex isUpper ''Abcdef12#'' \<and> list_ex isLower ''Abcdef12#''
   \<and> list_ex isDigit ''Abcdef12#''
   \<and> post_users sample_env empty_server (clock_at 5000) 12
        \<lparr>r_username = Some ''alice123'', r_email = Some ''a@b.com'',
         r_password = Some ''Abcdef12#''\<rparr> =
       (Response 400 (ValidationFailure [''password'']), empty_server)"
  by (simp add: post_users_def registerSchema_def toString_def trim_def isLength_def
      matches_username_def matches_password_def lookahead_def char_classes sample_env_def)

text \<open>
  C7, amended. The password pattern accepts exactly the strings of at least 8 characters,
  each an ASCII letter, a digit or one of \<^verbatim>\<open>@$!%*?&\<close>, that hold an upper-case letter, a
  lower-case letter and a digit. The route answers 400 exactly when a validator of the
  schema fails (username of 3 to 30 characters after trimming, of letters, digits and
  underscore; a valid email; the password pattern), then with code
  \<^verbatim>\<open>VALIDATION_ERROR\<close> and nothing stored; a username shorter than 3 characters
  after trimming is such a case. A request that meets the policy and collides with no
  stored user is answered 201 with a token.
\<close>

theorem registration_policy:
  "(matches_password p \<longleftrightarrow>
      8 \<le> length p \<and> list_ex isUpper p \<and> list_ex isLower p \<and> list_ex isDigit p
      \<and> list_all (\<lambda>c. isUpper c \<or> isLower c \<or> isDigit c \<or> isSpecial c) p)
   \<and> (status (fst (post_users e s tm newId raw)) = 400 \<longleftrightarrow>
        \<not> (isLength 3 (Some 30) (trim (toString (r_username raw)))
           \<and> matches_username (trim (toString (r_username raw)))
           \<and> isEmail e (trim (toString (r_email raw)))
           \<and> isLength 8 None (toString (r_password raw))
           \<and> matches_password (toString (r_password raw))))
   \<and> (status (fst (post_users e s tm newId raw)) = 400 \<longrightarrow>
        post_users e s tm newId raw =
          (Response 400 (ValidationFailure (fst (registerSchema e raw))), s)
        \<and> code (body (fst (post_users e s tm newId raw))) = Some ''VALIDATION_ERROR'')
   \<and> (length (trim (toString (r_username raw))) < 3 \<longrightarrow>
        status (fst (post_users e s tm newId raw)) = 400)
   \<and> (3 \<le> length (trim u) \<and> length (trim u) \<le> 30 \<and> matches_username (trim u)
        \<and> isEmail e (trim m)
        \<and> 8 \<le> length p \<and> list_ex isUpper p \<and> list_ex isLower p \<and> list_ex isDigit p
        \<and> list_all (\<lambda>c. isUpper c \<or> isLower c \<or> isDigit c \<or> isSpecial c) p
        \<and> \<not> (\<exists>x \<in> set (users d). username x = trim u \<or> email x = normalizeEmail e (trim m))
        \<and> newId \<notin> set (map u_id (users d)) \<longrightarrow>
        post_users e \<lparr>database = Some d, console = out\<rparr> tm newId
            \<lparr>r_username = Some u, r_email = Some m, r_password = Some p\<rparr> =
          (Response 201
             (Registered newId (trim u) (normalizeEmail e (trim m)) (tm 0)
                (generateToken e (tm 1) (toHexString newId))),
           \<lparr>database = Some (d\<lparr>users := users d @
               [\<lparr>u_id = newId, username = trim u, email = normalizeEmail e (trim m),
                 password = bcrypt_hash e p (SALT_ROUNDS e),
                 joinDate = tm 0, lastLogin = None, loginAttempts = 0,
                 lastFailedLogin = None, isActive = True, role = ''user'',
                 profile = []\<rparr>]\<rparr>),
             console = out\<rparr>))"
  (is "?A \<and> ?B \<and> ?C \<and> ?D \<and> ?E")
proof -
  have a: ?A by (rule matches_password_iff)
  have b: ?B
  proof (cases "fst (registerSchema e raw) = []")
    case True
    have "status (fst (register e s tm newId (snd (registerSchema e raw)))) \<noteq> 400"
      using register_status [of e s tm newId "snd (registerSchema e raw)"] by auto
    with True show ?thesis
      using registerSchema_ok_iff [of e raw] by (simp add: post_users_valid)
  next
    case False
    then show ?thesis
      using registerSchema_ok_iff [of e raw] by (simp add: post_users_invalid)
  qed
  have c: ?C
  proof (cases "fst (registerSchema e raw) = []")
    case True
    have "status (fst (register e s tm newId (snd (registerSchema e raw)))) \<noteq> 400"
      using register_status [of e s tm newId "snd (registerSchema e raw)"] by auto
    with True show ?thesis by (simp add: post_users_valid)
  next
    case False
    then show ?thesis by (simp add: post_users_invalid)
  qed
  have d: ?D
    using b by (auto simp: isLength_def)
  have e: ?E
  proof (intro impI)
    assume h: "3 \<le> length (trim u) \<and> length (trim u) \<le> 30 \<and> matches_username (trim u)
        \<and> isEmail e (trim m)
        \<and> 8 \<le> length p \<and> list_ex isUpper p \<and> list_ex isLower p \<and> list_ex isDigit p
        \<and> list_all (\<lambda>c. isUpper c \<or> isLower c \<or> isDigit c \<or> isSpecial c) p
        \<and> \<not> (\<exists>x \<in> set (users d). username x = trim u \<or> email x = normalizeEmail e (trim m))
        \<and> newId \<notin> set (map u_id (users d))"
    let ?raw = "\<lparr>r_username = Some u, r_email = Some m, r_password = Some p\<rparr>"
    have ok: "fst (registerSchema e ?raw) = []"
      using h by (simp add: registerSchema_ok_iff toString_def isLength_def matches_password_iff)
    have bd: "snd (registerSchema e ?raw) =
              \<lparr>rb_username = trim u, rb_email = normalizeEmail e (trim m), rb_password = p\<rparr>"
      by (simp add: registerSchema_def toString_def Let_def)
    let ?req = "\<lparr>rb_username = trim u, rb_email = normalizeEmail e (trim m), rb_password = p\<rparr>"
    have free: "\<not> (\<exists>x \<in> set (users d).
                   username x = rb_username ?req \<or> email x = rb_email ?req)"
      using h by simp
    have run: "post_users e \<lparr>database = Some d, console = out\<rparr> tm newId ?raw =
               register e \<lparr>database = Some d, console = out\<rparr> tm newId ?req"
      by (simp only: post_users_valid [OF ok] bd)
    show "post_users e \<lparr>database = Some d, console = out\<rparr> tm newId ?raw =
          (Response 201
             (Registered newId (trim u) (normalizeEmail e (trim m)) (tm 0)
                (generateToken e (tm 1) (toHexString newId))),
           \<lparr>database = Some (d\<lparr>users := users d @
               [\<lparr>u_id = newId, username = trim u, email = normalizeEmail e (trim m),
                 password = bcrypt_hash e p (SALT_ROUNDS e),
                 joinDate = tm 0, lastLogin = None, loginAttempts = 0,
                 lastFailedLogin = None, isActive = True, role = ''user'',
                 profile = []\<rparr>]\<rparr>),
             console = out\<rparr>)"
      using h by (simp add: run register_free [OF free])
  qed
  from a b c d e show ?thesis by blast
qed

theorem registration_policy_witness:
  "3 \<le> length (trim ''alice123'') \<and> length (trim ''alice123'') \<le> 30
   \<and> matches_username (trim ''alice123'') \<and> isEmail sample_env (trim ''a@b.com'')
   \<and> 8 \<le> length ''Abcdef12'' \<and> list_ex isUpper ''Abcdef12'' \<and> list_ex isLower ''Abcdef12''
   \<and> list_ex isDigit ''Abcdef12''
   \<and> list_all (\<lambda>c. isUpper c \<or> isLower c \<or> isDigit c \<or> isSpecial c) ''Abcdef12''
   \<and> post_users sample_env empty_server (clock_at 5000) 12
        \<lparr>r_username = Some ''alice123'', r_email = Some ''a@b.com'',
         r_password = Some ''Abcdef12''\<rparr> =
       (Response 201
          (Registered 12 ''alice123'' ''a@b.com'' 5000 ''jwt.00000000000000000000000c''),
        \<lparr>database = Some \<lparr>users =
            [\<lparr>u_id = 12, username = ''alice123'', email = ''a@b.com'',
              password = ''$2b$Abcdef12'', joinDate = 5000, lastLogin = None,
              loginAttempts = 0, lastFailedLogin = None, isActive = True, role = ''user'',
              profile = []\<rparr>],
           books = []\<rparr>, console = []\<rparr>)
   \<and> length (trim (toString (r_username
         \<lparr>r_username = Some ''ab'', r_email = None, r_password = None\<rparr>))) < 3
   \<and> post_users sample_env empty_server (clock_at 5000) 12
        \<lparr>r_username = Some ''ab'', r_email = None, r_password = None\<rparr> =
       (Response 400 (ValidationFailure [''username'', ''email'', ''password'', ''password'']),
        empty_server)"
proof -
  have pre: "3 \<le> length (trim ''alice123'') \<and> length (trim ''alice123'') \<le> 30
   \<and> matches_username (trim ''alice123'') \<and> isEmail sample_env (trim ''a@b.com'')
   \<and> 8 \<le> length ''Abcdef12'' \<and> list_ex isUpper ''Abcdef12'' \<and> list_ex isLower ''Abcdef12''
   \<and> list_ex isDigit ''Abcdef12''
   \<and> list_all (\<lambda>c. isUpper c \<or> isLower c \<or> isDigit c \<or> isSpecial c) ''Abcdef12''"
    by (simp add: trim_def matches_username_def char_classes sample_env_def)
  have tr: "trim ''alice123'' = ''alice123'' \<and> trim ''a@b.com'' = ''a@b.com''"
    by (simp add: trim_def char_classes)
  have acc: "post_users sample_env empty_server (clock_at 5000) 12
        \<lparr>r_username = Some ''alice123'', r_email = Some ''a@b.com'',
         r_password = Some ''Abcdef12''\<rparr> =
       (Response 201
          (Registered 12 ''alice123'' ''a@b.com'' 5000 ''jwt.00000000000000000000000c''),
        \<lparr>database = Some \<lparr>users =
            [\<lparr>u_id = 12, username = ''alice123'', email = ''a@b.com'',
              password = ''$2b$Abcdef12'', joinDate = 5000, lastLogin = None,
              loginAttempts = 0, lastFailedLogin = None, isActive = True, role = ''user'',
              profile = []\<rparr>],
           books = []\<rparr>, console = []\<rparr>)"
    using registration_policy [where e = sample_env and d = "\<lparr>users = [], books = []\<rparr>"
        and out = "[]" and tm = "clock_at 5000" and newId = 12 and u = "''alice123''"
        and m = "''a@b.com''" and p = "''Abcdef12''"] pre hex12
    by (simp add: tr empty_server_def sample_env_def clock_at_def generateToken_def)
  have short: "length (trim (toString (r_username
         \<lparr>r_username = Some ''ab'', r_email = None, r_password = None\<rparr>))) < 3"
    by (simp add: trim_def toString_def char_classes)
  have errs: "fst (registerSchema sample_env
                \<lparr>r_username = Some ''ab'', r_email = None, r_password = None\<rparr>) =
              [''username'', ''email'', ''password'', ''password'']"
    by (simp add: registerSchema_def toString_def trim_def isLength_def
      matches_username_def matches_password_def lookahead_def char_classes sample_env_def)
  have rej: "post_users sample_env empty_server (clock_at 5000) 12
        \<lparr>r_username = Some ''ab'', r_email = None, r_password = None\<rparr> =
       (Response 400 (ValidationFailure [''username'', ''email'', ''password'', ''password'']),
        empty_server)"
    using registration_policy [where e = sample_env and s = empty_server
        and tm = "clock_at 5000" and newId = 12
        and raw = "\<lparr>r_username = Some ''ab'', r_email = None, r_password = None\<rparr>"] short
    by (simp add: errs)
  from pre acc short rej show ?thesis by blast
qed

subsection \<open>C3: a token authenticates the user it was issued for\<close>

lemma hexValue_hexDigit: "d < 16 \<Longrightarrow> hexValue (hexDigit d) = Some d"
  by (auto simp: hexValue_def hexDigit_def Let_def)

lemma fromHex_append:
  "fromHex acc (xs @ ys) = (case fromHex acc xs of None \<Rightarrow> None | Some a \<Rightarrow> fromHex a ys)"
  by (induction xs arbitrary: acc) (auto split: option.split)

lemma length_toHex: "length (toHex k n) = k"
  by (induction k arbitrary: n) auto

lemma fromHex_toHex: "fromHex acc (toHex k n) = Some (acc * 16 ^ k + n mod 16 ^ k)"
proof (induction k arbitrary: n acc)
  case 0
  then show ?case by simp
next
  case (Suc k)
  have "n mod (16 * 16 ^ k) = 16 * (n div 16 mod 16 ^ k) + n mod 16"
    by (rule mod_mult2_eq)
  then show ?case
    by (simp add: fromHex_append Suc.IH hexValue_hexDigit algebra_simps)
qed

lemma ObjectId_round_trip: "ObjectId_new (toHexString w) = Inr w"
proof -
  have "unat w < 2 ^ 96"
    using unsigned_less [of w, where ?'a = nat] by simp
  then have "unat w mod 16 ^ 24 = unat w"
    by simp
  then show ?thesis
    by (simp add: ObjectId_new_def toHexString_def length_toHex fromHex_toHex)
qed

lemma split_no_sep: "sep \<notin> set s \<Longrightarrow> split sep s = [s]"
  by (induction s) auto

lemma bearer_token:
  "CHR '' '' \<notin> set tok \<Longrightarrow>
   bearer (Some (CHR ''B'' # CHR ''e'' # CHR ''a'' # CHR ''r'' # CHR ''e'' # CHR ''r'' #
                 CHR '' '' # tok)) = Some tok"
  by (simp add: bearer_def split_no_sep)


lemma authenticate_bearer:
  assumes "tok \<noteq> []" and "CHR '' '' \<notin> set tok"
    and "jwt_verify e tok (JWT_SECRET e) now = Some (toHexString uid)"
  shows "authenticateUser e \<lparr>database = Some d, console = out\<rparr> now (Some (''Bearer '' @ tok)) =
         (case findOne (\<lambda>u. u_id u = uid \<and> isActive u) (users d) of
            None \<Rightarrow> Inl not_authorized
          | Some usr \<Rightarrow> Inr usr)"
  using assms
  by (simp add: authenticateUser_def bearer_token getDb_def ObjectId_round_trip)

lemma get_me_bearer:
  assumes "tok \<noteq> []" and "CHR '' '' \<notin> set tok"
    and "jwt_verify e tok (JWT_SECRET e) now = Some (toHexString uid)"
    and "findOne (\<lambda>u. u_id u = uid \<and> isActive u) (users d) = Some usr"
  shows "get_me_route e \<lparr>database = Some d, console = out\<rparr> now (Some (''Bearer '' @ tok)) =
         (Response 200
            (Profile uid (username usr) (email usr) (role usr) (profile usr) (joinDate usr)),
          \<lparr>database = Some d, console = out\<rparr>)"
proof -
  from assms(4) have uid: "u_id usr = uid"
    by (auto dest: findOne_Some_mem)
  have auth: "authenticateUser e \<lparr>database = Some d, console = out\<rparr> now
                (Some (''Bearer '' @ tok)) = Inr usr"
    using authenticate_bearer [OF assms(1-3), of d out] assms(4) by simp
  from auth uid show ?thesis
    unfolding get_me_route_def authenticated_def get_me_def by simp
qed

lemma findOneAndUpdate_keeps:
  assumes "x \<in> set xs" and "P x" and "\<And>y. P (f y) = P y"
  shows "\<exists>y \<in> set (snd (findOneAndUpdate Q f xs)). P y"
  using assms(1)
proof (induction xs)
  case Nil
  then show ?case by simp
next
  case (Cons a xs)
  then show ?case
    using assms(2,3) by (auto split: prod.splits)
qed


lemma login_success_only:
  assumes found: "findOne (\<lambda>u. email u = lb_email req) (users d) = Some acct"
    and ok: "fst (login e \<lparr>database = Some d, console = out\<rparr> tm req) =
             Response 200 (LoggedIn i un em rl pf tk)"
  shows "i = u_id acct \<and> tk = generateToken e (tm 4) (toHexString (u_id acct))
         \<and> snd (login e \<lparr>database = Some d, console = out\<rparr> tm req) =
           \<lparr>database = Some (d\<lparr>users :=
               updateOne (\<lambda>u. u_id u = u_id acct)
                 (\<lambda>u. u\<lparr>loginAttempts := 0, lastLogin := Some (tm 3)\<rparr>) (users d)\<rparr>),
             console = out\<rparr>"
  using found ok
  by (auto simp: login_def getDb_def sanitizeInput_def Let_def invalid_credentials_def
      split: if_splits)

lemma register_success_only:
  assumes ok: "fst (register e \<lparr>database = Some d, console = out\<rparr> tm newId req) =
               Response 201 (Registered i un em jd tk)"
  shows "i = newId \<and> un = rb_username req \<and> em = rb_email req \<and> jd = tm 0
         \<and> tk = generateToken e (tm 1) (toHexString newId)
         \<and> newId \<notin> set (map u_id (users d))
         \<and> snd (register e \<lparr>database = Some d, console = out\<rparr> tm newId req) =
           \<lparr>database = Some (d\<lparr>users := users d @
               [\<lparr>u_id = newId, username = rb_username req, email = rb_email req,
                 password = bcrypt_hash e (rb_password req) (SALT_ROUNDS e),
                 joinDate = tm 0, lastLogin = None, loginAttempts = 0,
                 lastFailedLogin = None, isActive = True, role = ''user'',
                 profile = []\<rparr>]\<rparr>),
             console = out\<rparr>"
proof (cases "\<exists>u \<in> set (users d). username u = rb_username req \<or> email u = rb_email req")
  case True
  from register_taken [OF True] ok show ?thesis
    by (simp add: user_exists_def)
next
  case False
  from register_free [OF False, of e out tm newId] ok show ?thesis
    by (auto simp: server_error_def split: if_splits)
qed

text \<open>
  C3. Suppose that what \<^verbatim>\<open>jwt.sign\<close> returns at the instant of issue for a payload under
  a key, with the configured lifetime, \<^verbatim>\<open>jwt.verify\<close> resolves under the same key at the
  instant of the request to that payload (the token is not expired), and that the token
  signed for a user id is a non-empty string without a blank. Then verifying the token
  generated for that id under the configured secret gives the id's hexadecimal string;
  sent as \<^verbatim>\<open>Bearer\<close> token it passes the middleware whenever an active user with that id
  is stored, \<^verbatim>\<open>req.user\<close> is that user, and \<^verbatim>\<open>GET /me\<close> answers 200 with that id. Hence
  the token of a 201 registration answer authenticates \<^verbatim>\<open>GET /me\<close> on the state the
  registration leaves, with the id, username, email and join date of the registration
  answer; and the token of a 200 login answer for an active account authenticates
  \<^verbatim>\<open>GET /me\<close> on the state the login leaves, with the id of the login answer.
\<close>

theorem token_round_trip:
  assumes pair: "\<And>u k. jwt_verify e (jwt_sign e u k (JWT_EXPIRES_IN e) issued) k checked = Some u"
    and shape: "jwt_sign e (toHexString uid) (JWT_SECRET e) (JWT_EXPIRES_IN e) issued \<noteq> []
                \<and> CHR '' '' \<notin> set (jwt_sign e (toHexString uid) (JWT_SECRET e) (JWT_EXPIRES_IN e) issued)"
  shows "jwt_verify e (generateToken e issued (toHexString uid)) (JWT_SECRET e) checked =
           Some (toHexString uid)
       \<and> (findOne (\<lambda>u. u_id u = uid \<and> isActive u) (users d) = Some usr \<longrightarrow>
            authenticateUser e \<lparr>database = Some d, console = out\<rparr> checked
                (Some (''Bearer '' @
                   jwt_sign e (toHexString uid) (JWT_SECRET e) (JWT_EXPIRES_IN e) issued)) = Inr usr
            \<and> get_me_route e \<lparr>database = Some d, console = out\<rparr> checked
                (Some (''Bearer '' @
                   jwt_sign e (toHexString uid) (JWT_SECRET e) (JWT_EXPIRES_IN e) issued)) =
              (Response 200
                 (Profile uid (username usr) (email usr) (role usr) (profile usr) (joinDate usr)),
               \<lparr>database = Some d, console = out\<rparr>))
       \<and> (fst (register e \<lparr>database = Some d, console = out\<rparr> tm uid req) =
            Response 201 (Registered i un em jd tk) \<and> tm 1 = issued \<longrightarrow>
            i = uid \<and> tk = jwt_sign e (toHexString uid) (JWT_SECRET e) (JWT_EXPIRES_IN e) issued
            \<and> get_me_route e (snd (register e \<lparr>database = Some d, console = out\<rparr> tm uid req)) checked
                (Some (''Bearer '' @ tk)) =
              (Response 200 (Profile uid un em ''user'' [] jd),
               snd (register e \<lparr>database = Some d, console = out\<rparr> tm uid req)))
       \<and> (findOne (\<lambda>u. email u = lb_email lreq) (users d) = Some acct \<and> isActive acct
          \<and> fst (login e \<lparr>database = Some d, console = out\<rparr> tm' lreq) =
            Response 200 (LoggedIn uid un' em' rl pf tk') \<and> tm' 4 = issued \<longrightarrow>
            tk' = jwt_sign e (toHexString uid) (JWT_SECRET e) (JWT_EXPIRES_IN e) issued \<and> u_id acct = uid
            \<and> (\<exists>usr' :: user. u_id usr' = uid
                 \<and> get_me_route e (snd (login e \<lparr>database = Some d, console = out\<rparr> tm' lreq)) checked
                     (Some (''Bearer '' @ tk')) =
                   (Response 200
                      (Profile uid (username usr') (email usr') (role usr') (profile usr')
                         (joinDate usr')),
                    snd (login e \<lparr>database = Some d, console = out\<rparr> tm' lreq))))"
  (is "?c0 \<and> (?h1 \<longrightarrow> ?c1) \<and> (?h2 \<longrightarrow> ?c2) \<and> (?h3 \<longrightarrow> ?c3)")
proof -
  let ?tok = "jwt_sign e (toHexString uid) (JWT_SECRET e) (JWT_EXPIRES_IN e) issued"
  from shape have ne: "?tok \<noteq> []" and nosp: "CHR '' '' \<notin> set ?tok"
    by simp_all
  have lib: "jwt_verify e ?tok (JWT_SECRET e) checked = Some (toHexString uid)"
    by (rule pair)
  have zero: ?c0
    using lib by (simp add: generateToken_def)
  have one: "?h1 \<longrightarrow> ?c1"
  proof
    assume h: ?h1
    have "authenticateUser e \<lparr>database = Some d, console = out\<rparr> checked
            (Some (''Bearer '' @ ?tok)) = Inr usr"
      using authenticate_bearer [OF ne nosp lib, of d out] h by simp
    with get_me_bearer [OF ne nosp lib h, of out] show ?c1
      by simp
  qed
  have two: "?h2 \<longrightarrow> ?c2"
  proof
    assume h: ?h2
    let ?new = "\<lparr>u_id = uid, username = rb_username req, email = rb_email req,
                 password = bcrypt_hash e (rb_password req) (SALT_ROUNDS e),
                 joinDate = tm 0, lastLogin = None, loginAttempts = 0,
                 lastFailedLogin = None, isActive = True, role = ''user'',
                 profile = []\<rparr>"
    from h have ok: "fst (register e \<lparr>database = Some d, console = out\<rparr> tm uid req) =
                     Response 201 (Registered i un em jd tk)"
      by simp
    note facts = register_success_only [OF ok]
    from facts have fresh: "\<forall>u \<in> set (users d). \<not> (u_id u = uid \<and> isActive u)"
      by auto
    then have "findOne (\<lambda>u. u_id u = uid \<and> isActive u) (users d) = None"
      by (simp add: findOne_None_iff)
    then have fnd: "findOne (\<lambda>u. u_id u = uid \<and> isActive u)
                  (users (d\<lparr>users := users d @ [?new]\<rparr>)) = Some ?new"
      by (simp add: findOne_append)
    from get_me_bearer [OF ne nosp lib fnd, of out] facts h show ?c2
      by (simp add: generateToken_def)
  qed
  have three: "?h3 \<longrightarrow> ?c3"
  proof
    assume h: ?h3
    then have found: "findOne (\<lambda>u. email u = lb_email lreq) (users d) = Some acct"
      and ok: "fst (login e \<lparr>database = Some d, console = out\<rparr> tm' lreq) =
               Response 200 (LoggedIn uid un' em' rl pf tk')"
      by simp_all
    note facts = login_success_only [OF found ok]
    let ?us = "updateOne (\<lambda>u. u_id u = u_id acct)
                 (\<lambda>u. u\<lparr>loginAttempts := 0, lastLogin := Some (tm' 3)\<rparr>) (users d)"
    from found have mem: "acct \<in> set (users d)"
      by (auto dest: findOne_Some_mem)
    have "\<exists>y \<in> set ?us. u_id y = uid \<and> isActive y"
      unfolding updateOne_def
      using mem facts h by (intro findOneAndUpdate_keeps [where x = acct]) simp_all
    then obtain usr' where
      fnd: "findOne (\<lambda>u. u_id u = uid \<and> isActive u) (users (d\<lparr>users := ?us\<rparr>)) = Some usr'"
      using findOne_exists [where P = "\<lambda>u. u_id u = uid \<and> isActive u" and xs = ?us]
      by auto
    then have id: "u_id usr' = uid"
      by (auto dest: findOne_Some_mem)
    have g: "get_me_route e (snd (login e \<lparr>database = Some d, console = out\<rparr> tm' lreq)) checked
               (Some (''Bearer '' @ tk')) =
             (Response 200
                (Profile uid (username usr') (email usr') (role usr') (profile usr')
                   (joinDate usr')),
              snd (login e \<lparr>database = Some d, console = out\<rparr> tm' lreq))"
      using get_me_bearer [OF ne nosp lib fnd, of out] facts h
      by (simp add: generateToken_def)
    have ex: "\<exists>usr' :: user. u_id usr' = uid
                 \<and> get_me_route e (snd (login e \<lparr>database = Some d, console = out\<rparr> tm' lreq)) checked
                     (Some (''Bearer '' @ tk')) =
                   (Response 200
                      (Profile uid (username usr') (email usr') (role usr') (profile usr')
                         (joinDate usr')),
                    snd (login e \<lparr>database = Some d, console = out\<rparr> tm' lreq))"
      by (rule exI [of _ usr'], rule conjI [OF id g])
    have "tk' = jwt_sign e (toHexString uid) (JWT_SECRET e) (JWT_EXPIRES_IN e) issued
          \<and> u_id acct = uid"
      using facts h by (simp add: generateToken_def)
    with ex show ?c3 by blast
  qed
  from zero one two three show ?thesis by blast
qed

theorem token_round_trip_witness:
  "(\<forall>u k. jwt_verify sample_env (jwt_sign sample_env u k (JWT_EXPIRES_IN sample_env) 6000) k
            7000 = Some u)
   \<and> jwt_sign sample_env (toHexString 10) (JWT_SECRET sample_env) (JWT_EXPIRES_IN sample_env)
        6000 = ''jwt.00000000000000000000000a''
   \<and> jwt_verify sample_env ''jwt.00000000000000000000000a'' (JWT_SECRET sample_env) 7000 =
        Some ''00000000000000000000000a''
   \<and> findOne (\<lambda>u. u_id u = 10 \<and> isActive u) (users sample_db) = Some alice
   \<and> get_me_route sample_env sample_server 7000
        (Some ''Bearer jwt.00000000000000000000000a'') =
       (Response 200 (Profile 10 ''alice123'' ''a@b.com'' ''user'' [] 0), sample_server)
   \<and> fst (register sample_env sample_server (clock_at 5000) 12 carol) =
       Response 201 (Registered 12 ''carol_1'' ''c@b.com'' 5000 ''jwt.00000000000000000000000c'')
   \<and> get_me_route sample_env (snd (register sample_env sample_server (clock_at 5000) 12 carol))
        7000 (Some ''Bearer jwt.00000000000000000000000c'') =
       (Response 200 (Profile 12 ''carol_1'' ''c@b.com'' ''user'' [] 5000),
        snd (register sample_env sample_server (clock_at 5000) 12 carol))
   \<and> findOne (\<lambda>u. email u = ''bob@b.com'') (users sample_db) = Some bob \<and> isActive bob
   \<and> fst (login sample_env sample_server (clock_at 5000)
             \<lparr>lb_email = ''bob@b.com'', lb_password = ''Secret99''\<rparr>) =
       Response 200
         (LoggedIn 11 ''bob_77'' ''bob@b.com'' ''user'' [] ''jwt.00000000000000000000000b'')
   \<and> (\<exists>usr' :: user. u_id usr' = 11
        \<and> get_me_route sample_env
             (snd (login sample_env sample_server (clock_at 5000)
                     \<lparr>lb_email = ''bob@b.com'', lb_password = ''Secret99''\<rparr>))
             7000 (Some ''Bearer jwt.00000000000000000000000b'') =
           (Response 200
              (Profile 11 (username usr') (email usr') (role usr') (profile usr')
                 (joinDate usr')),
            snd (login sample_env sample_server (clock_at 5000)
                   \<lparr>lb_email = ''bob@b.com'', lb_password = ''Secret99''\<rparr>)))"
proof -
  have lib: "\<And>issued checked u k.
      jwt_verify sample_env (jwt_sign sample_env u k (JWT_EXPIRES_IN sample_env) issued) k checked =
      Some u"
    by (simp add: sample_env_def)
  have tok: "\<And>issued x k ex. jwt_sign sample_env x k ex issued = ''jwt.'' @ x"
    by (simp add: sample_env_def)
  have nosp: "\<And>issued uid. uid \<in> {10, 11, 12} \<Longrightarrow>
      jwt_sign sample_env (toHexString uid) (JWT_SECRET sample_env) (JWT_EXPIRES_IN sample_env)
        issued \<noteq> []
      \<and> CHR '' '' \<notin> set (jwt_sign sample_env (toHexString uid) (JWT_SECRET sample_env)
                           (JWT_EXPIRES_IN sample_env) issued)"
    using tokA hex11 hex12 by (auto simp: tok)
  have a: "findOne (\<lambda>u. u_id u = 10 \<and> isActive u) (users sample_db) = Some alice"
    by (simp add: sample_db_def alice_def)
  have w1: "get_me_route sample_env sample_server 7000
        (Some ''Bearer jwt.00000000000000000000000a'') =
       (Response 200 (Profile 10 ''alice123'' ''a@b.com'' ''user'' [] 0), sample_server)"
    using token_round_trip [where e = sample_env and issued = 6000 and checked = 7000 and uid = 10
        and d = sample_db and out = "[]" and usr = alice, OF lib nosp, THEN conjunct2,
        THEN conjunct1] a tokA
    by (simp add: tok sample_server_def alice_def)
  have r: "fst (register sample_env sample_server (clock_at 5000) 12 carol) =
       Response 201 (Registered 12 ''carol_1'' ''c@b.com'' 5000 ''jwt.00000000000000000000000c'')"
    using hex12
    by (simp add: register_def getDb_def sanitizeInput_def insertOne_def Let_def tok
        generateToken_def sample_server_def sample_db_def alice_def bob_def carol_def
        clock_at_def)
  have w2: "get_me_route sample_env
        (snd (register sample_env sample_server (clock_at 5000) 12 carol))
        7000 (Some ''Bearer jwt.00000000000000000000000c'') =
       (Response 200 (Profile 12 ''carol_1'' ''c@b.com'' ''user'' [] 5000),
        snd (register sample_env sample_server (clock_at 5000) 12 carol))"
    using token_round_trip [where e = sample_env and issued = 5001 and checked = 7000 and uid = 12
        and d = sample_db and out = "[]" and tm = "clock_at 5000" and req = carol
        and i = 12 and un = "''carol_1''" and em = "''c@b.com''" and jd = 5000
        and tk = "''jwt.00000000000000000000000c''", OF lib nosp, THEN conjunct2,
        THEN conjunct2, THEN conjunct1] r
    by (simp add: sample_server_def clock_at_def tok hex12)
  have b: "findOne (\<lambda>u. email u = ''bob@b.com'') (users sample_db) = Some bob \<and> isActive bob"
    by (simp add: sample_db_def alice_def bob_def)
  have l: "fst (login sample_env sample_server (clock_at 5000)
             \<lparr>lb_email = ''bob@b.com'', lb_password = ''Secret99''\<rparr>) =
       Response 200
         (LoggedIn 11 ''bob_77'' ''bob@b.com'' ''user'' [] ''jwt.00000000000000000000000b'')"
    using hex11
    by (simp add: login_def getDb_def sanitizeInput_def Let_def MAX_LOGIN_ATTEMPTS_def
        sample_server_def sample_db_def alice_def bob_def sample_env_def generateToken_def)
  have w3: "\<exists>usr' :: user. u_id usr' = 11
        \<and> get_me_route sample_env
             (snd (login sample_env sample_server (clock_at 5000)
                     \<lparr>lb_email = ''bob@b.com'', lb_password = ''Secret99''\<rparr>))
             7000 (Some ''Bearer jwt.00000000000000000000000b'') =
           (Response 200
              (Profile 11 (username usr') (email usr') (role usr') (profile usr')
                 (joinDate usr')),
            snd (login sample_env sample_server (clock_at 5000)
                   \<lparr>lb_email = ''bob@b.com'', lb_password = ''Secret99''\<rparr>))"
    using token_round_trip [where e = sample_env and issued = 5004 and checked = 7000 and uid = 11
        and d = sample_db and out = "[]" and tm' = "clock_at 5000"
        and lreq = "\<lparr>lb_email = ''bob@b.com'', lb_password = ''Secret99''\<rparr>"
        and acct = bob and un' = "''bob_77''" and em' = "''bob@b.com''" and rl = "''user''"
        and pf = "[]" and tk' = "''jwt.00000000000000000000000b''", OF lib nosp,
        THEN conjunct2, THEN conjunct2, THEN conjunct2] b l
    by (simp add: sample_server_def clock_at_def tok hex11)
  have g: "jwt_sign sample_env (toHexString 10) (JWT_SECRET sample_env)
             (JWT_EXPIRES_IN sample_env) 6000 = ''jwt.00000000000000000000000a''"
    using tokA by (simp add: tok)
  have v: "jwt_verify sample_env ''jwt.00000000000000000000000a'' (JWT_SECRET sample_env) 7000 =
             Some ''00000000000000000000000a''"
    using token_round_trip [where e = sample_env and issued = 6000 and checked = 7000 and uid = 10,
        OF lib nosp, THEN conjunct1] tokA
    by (simp add: generateToken_def tok)
  have p: "\<forall>u k. jwt_verify sample_env (jwt_sign sample_env u k (JWT_EXPIRES_IN sample_env) 6000) k
            7000 = Some u"
    using lib by blast
  from p g v a w1 r w2 b l w3 show ?thesis
    by blast
qed

end
